theory Spec2Isabelle
  imports Main "HOL-Library.AList"
begin

section \<open>JavaScript values\<close>

text \<open>
  The strategies handle open parameter bags and JSON payloads. Both are JavaScript
  values; objects are association lists in insertion order. Numbers are integers, which
  is all the strategies use them for (ids, page numbers).
\<close>

datatype jsval =
    Undefined
  | Null
  | Bool bool
  | Num int
  | Str string
  | Arr "jsval list"
  | Obj "(string \<times> jsval) list"

type_synonym jsobj = "(string \<times> jsval) list"

text \<open>\<^verbatim>\<open>o[k]\<close>: a missing property reads as \<^verbatim>\<open>undefined\<close>.\<close>

definition getProp :: "jsobj \<Rightarrow> string \<Rightarrow> jsval" where
  "getProp ob k = (case map_of ob k of None \<Rightarrow> Undefined | Some v \<Rightarrow> v)"

text \<open>\<^verbatim>\<open>if (v)\<close>, \<^verbatim>\<open>!v\<close>.\<close>

fun truthy :: "jsval \<Rightarrow> bool" where
  "truthy Undefined = False"
| "truthy Null = False"
| "truthy (Bool b) = b"
| "truthy (Num n) = (n \<noteq> 0)"
| "truthy (Str s) = (s \<noteq> [])"
| "truthy (Arr xs) = True"
| "truthy (Obj kvs) = True"

text \<open>\<^verbatim>\<open>v ?? d\<close>: the default replaces only \<^verbatim>\<open>null\<close> and \<^verbatim>\<open>undefined\<close>.\<close>

fun nullish :: "jsval \<Rightarrow> jsval \<Rightarrow> jsval" where
  "nullish Undefined d = d"
| "nullish Null d = d"
| "nullish v d = v"

fun digitsOf :: "nat \<Rightarrow> string" where
  "digitsOf n =
     (if n < 10 then [''0123456789'' ! n]
      else digitsOf (n div 10) @ [''0123456789'' ! (n mod 10)])"

declare digitsOf.simps [simp del]

definition showInt :: "int \<Rightarrow> string" where
  "showInt i = (if i < 0 then CHR ''-'' # digitsOf (nat (- i)) else digitsOf (nat i))"

fun joinWith :: "string \<Rightarrow> string list \<Rightarrow> string" where
  "joinWith sep [] = []"
| "joinWith sep [x] = x"
| "joinWith sep (x # y # ys) = x @ sep @ joinWith sep (y # ys)"

text \<open>The string a template literal \<^verbatim>\<open>`${v}`\<close> inserts for \<open>v\<close>.\<close>

fun js_toString :: "jsval \<Rightarrow> string" where
  "js_toString Undefined = ''undefined''"
| "js_toString Null = ''null''"
| "js_toString (Bool b) = (if b then ''true'' else ''false'')"
| "js_toString (Num n) = showInt n"
| "js_toString (Str s) = s"
| "js_toString (Arr xs) =
     joinWith '','' (map (\<lambda>x. if x = Undefined \<or> x = Null then [] else js_toString x) xs)"
| "js_toString (Obj kvs) = ''[object Object]''"

text \<open>\<^verbatim>\<open>{...a, ...b}\<close>: the properties of \<open>b\<close> override those of \<open>a\<close>.\<close>

definition spread :: "jsobj \<Rightarrow> jsobj \<Rightarrow> jsobj" where
  "spread a b = fold (\<lambda>(k, v) acc. AList.update k v acc) b a"

text \<open>\<^verbatim>\<open>{...v}\<close> for a value \<open>v\<close> that need not be an object.\<close>

fun ownProps :: "jsval \<Rightarrow> jsobj" where
  "ownProps (Obj kvs) = spread [] kvs"
| "ownProps (Arr xs) = map (\<lambda>i. (digitsOf i, xs ! i)) [0..<length xs]"
| "ownProps (Str s) = map (\<lambda>i. (digitsOf i, Str [s ! i])) [0..<length s]"
| "ownProps v = []"

text \<open>\<^verbatim>\<open>delete o[k]\<close> and the rest pattern \<^verbatim>\<open>const { k1, k2, ...rest } = o\<close>.\<close>

definition deleteKey :: "string \<Rightarrow> jsobj \<Rightarrow> jsobj" where
  "deleteKey k ob = filter (\<lambda>kv. fst kv \<noteq> k) ob"

definition omitKeys :: "string list \<Rightarrow> jsobj \<Rightarrow> jsobj" where
  "omitKeys ks ob = filter (\<lambda>kv. fst kv \<notin> set ks) ob"

abbreviation dq :: string where
  "dq \<equiv> [CHR 0x22]"

section \<open>Configuration\<close>

text \<open>
  \<^verbatim>\<open>provider/types.ts\<close>: a registration has a slug and a REST endpoint; post types
  add \<^verbatim>\<open>single\<close> and \<^verbatim>\<open>archive\<close>, taxonomies the optional \<^verbatim>\<open>rewrite\<close> and
  \<^verbatim>\<open>restParam\<close> that \<^verbatim>\<open>PostsArchiveFetchStrategy\<close> reads.
\<close>

record registration =
  slug :: string
  endpoint :: string

record posttype = registration +
  single :: "string option"
  archive :: "string option"

record taxonomy = registration +
  rewrite :: "string option"
  restParam :: "string option"

datatype error =
    ConfigError string
  | NotFoundError string
  | TransportError string

text \<open>What \<^verbatim>\<open>apiGet\<close> resolves to. The body follows the backend's wire shape: a
  collection endpoint answers with an array of objects, a single-item endpoint with an
  object.\<close>

datatype json = JArr "jsobj list" | JObj jsobj

type_synonym headers = "(string \<times> string) list"

record response =
  headers :: "(string \<times> jsval) list"
  json :: json

text \<open>One call of \<^verbatim>\<open>apiGet\<close>: the URL and the request headers of its \<^verbatim>\<open>args\<close>
  (\<^verbatim>\<open>{}\<close> is the empty list).\<close>

type_synonym call = "string \<times> headers"

text \<open>
  The environment of a request: the settings of \<^verbatim>\<open>getHeadlessConfig()\<close>, the
  registration tables \<^verbatim>\<open>getCustomTaxonomies()\<close> and \<^verbatim>\<open>getCustomPostTypes()\<close>
  return, \<^verbatim>\<open>getWPUrl()\<close>, the \<^verbatim>\<open>endpoints\<close> table, and the capabilities the
  strategies are handed: \<^verbatim>\<open>addQueryArgs\<close>, URL decoding, and the network itself. The
  network answers a request depending on the calls made so far, so a backend whose
  answers change over time is covered; it either delivers a response or fails with a
  reason.
\<close>

record env =
  useWordPressPlugin :: bool
  customTaxonomies :: "taxonomy list option"
  customPostTypes :: "posttype list"
  wpUrl :: string
  endpoints_posts :: string
  endpoints_category :: string
  endpoints_yoast :: string
  addQueryArgs :: "string \<Rightarrow> jsobj \<Rightarrow> string"
  decodeURIComponent :: "string \<Rightarrow> string"
  fetch :: "call list \<Rightarrow> string \<Rightarrow> headers \<Rightarrow> string + response"

section \<open>Asynchronous calls\<close>

text \<open>
  A promise is a computation over the log of network calls: it rejects with an error or
  resolves with a value, and returns the log extended by the calls it made.
\<close>

type_synonym 'a promise = "call list \<Rightarrow> (error + 'a) \<times> call list"

definition resolve :: "'a \<Rightarrow> 'a promise" where
  "resolve x = (\<lambda>log. (Inr x, log))"

definition reject :: "error \<Rightarrow> 'a promise" where
  "reject e = (\<lambda>log. (Inl e, log))"

definition await :: "'a promise \<Rightarrow> ('a \<Rightarrow> 'b promise) \<Rightarrow> 'b promise" where
  "await m f = (\<lambda>log. case m log of
       (Inl e, log') \<Rightarrow> (Inl e, log')
     | (Inr x, log') \<Rightarrow> f x log')"

text \<open>\<^verbatim>\<open>try { x = await m } catch (e) { x = d }\<close>\<close>

definition tryCatch :: "'a promise \<Rightarrow> 'a \<Rightarrow> 'a promise" where
  "tryCatch m d = (\<lambda>log. case m log of
       (Inl e, log') \<Rightarrow> (Inr d, log')
     | (Inr x, log') \<Rightarrow> (Inr x, log'))"

text \<open>
  \<^verbatim>\<open>apiGet\<close> (\<^verbatim>\<open>data/api/fetch-utils.ts\<close>) with \<^verbatim>\<open>withMinute\<close> left at its default
  \<^verbatim>\<open>false\<close>, as every caller here does: \<^verbatim>\<open>getAuthHeader()\<close> is \<^verbatim>\<open>null\<close>, so
  \<^verbatim>\<open>args\<close> is passed on unchanged, and the request goes to
  \<^verbatim>\<open>addQueryArgs(url, {})\<close>. A rejected \<^verbatim>\<open>fetch\<close> (or body that is not JSON)
  rejects the call. Every call is appended to the log.
\<close>

definition apiGet :: "env \<Rightarrow> string \<Rightarrow> headers \<Rightarrow> response promise" where
  "apiGet env url args =
     (\<lambda>log. (case fetch env log (addQueryArgs env url []) args of
               Inl reason \<Rightarrow> Inl (TransportError reason)
             | Inr res \<Rightarrow> Inr res,
            log @ [(url, args)]))"

section \<open>Strategies: shared types\<close>

text \<open>The mutable part of a strategy object: \<^verbatim>\<open>setBaseURL\<close> and \<^verbatim>\<open>setEndpoint\<close>
  write it, \<^verbatim>\<open>this.baseURL\<close> and \<^verbatim>\<open>getEndpoint()\<close> read it; \<open>requestPath\<close> is the
  request path the single-post strategy compares links against.\<close>

record strategy =
  baseURL :: string
  currentEndpoint :: string
  requestPath :: string

text \<open>\<^verbatim>\<open>Partial<FetchOptions>\<close>: an absent option is \<open>None\<close>; \<^verbatim>\<open>{}\<close> and an
  omitted argument are \<open>noOptions\<close>.\<close>

record fetchOptions =
  throwIfNotFound :: "bool option"
  bearerToken :: "string option"

definition noOptions :: fetchOptions where
  "noOptions = \<lparr>throwIfNotFound = None, bearerToken = None\<rparr>"

record pageInfo =
  page :: int
  totalPages :: int
  totalItems :: int

text \<open>The \<^verbatim>\<open>search\<close> entry of a \<^verbatim>\<open>QueriedObject\<close>, as
  \<^verbatim>\<open>SearchFetchStrategy.fetcher\<close> builds it.\<close>

record searchEntity =
  searchedValue :: jsval
  type :: string
  subtype :: jsval
  yoast_head :: jsval
  yoast_head_json :: jsobj

record queriedObject =
  search :: "searchEntity option"

text \<open>\<^verbatim>\<open>FetchResponse<T>\<close>\<close>

record fetchResponse =
  result :: json
  pageInfo :: pageInfo
  queriedObject :: "queriedObject option"

text \<open>The type of a \<^verbatim>\<open>fetcher\<close> method, and of \<^verbatim>\<open>super.fetcher\<close> where a
  strategy calls it.\<close>

type_synonym fetcher =
  "string \<Rightarrow> jsobj \<Rightarrow> fetchOptions \<Rightarrow> fetchResponse promise"

section \<open>The base strategy\<close>

text \<open>
  Modelled from the spec: \<^verbatim>\<open>AbstractFetchStrategy.buildEndpointURL\<close> is defined in
  \<^verbatim>\<open>AbstractFetchStrategy.ts\<close>, whose source is missing. The URL is the
  active endpoint followed by the serialized parameters.
\<close>

definition AbstractFetchStrategy_buildEndpointURL :: "env \<Rightarrow> strategy \<Rightarrow> jsobj \<Rightarrow> string" where
  "AbstractFetchStrategy_buildEndpointURL env strat params =
     addQueryArgs env (currentEndpoint strat) params"

text \<open>
  Modelled from the spec: the numbers of \<^verbatim>\<open>pageInfo\<close>, part of
  \<^verbatim>\<open>AbstractFetchStrategy.fetcher\<close> (missing with \<^verbatim>\<open>AbstractFetchStrategy.ts\<close>). A
  header or parameter that is a number or a string of decimal digits gives that number;
  anything else, and an absent one, gives the default 1.
\<close>

fun parseDigits :: "string \<Rightarrow> nat \<Rightarrow> nat option" where
  "parseDigits [] acc = Some acc"
| "parseDigits (c # cs) acc =
     (if c \<in> set ''0123456789''
      then parseDigits cs (10 * acc + (of_char c - 48))
      else None)"

fun headerNumber :: "jsval \<Rightarrow> int" where
  "headerNumber (Num n) = n"
| "headerNumber (Str s) =
     (if s = [] then 1 else case parseDigits s 0 of None \<Rightarrow> 1 | Some n \<Rightarrow> int n)"
| "headerNumber v = 1"

text \<open>
  Modelled from the spec: the request headers of the base fetch, part of
  \<^verbatim>\<open>AbstractFetchStrategy.fetcher\<close> (missing with \<^verbatim>\<open>AbstractFetchStrategy.ts\<close>):
  \<^verbatim>\<open>Authorization: Bearer <token>\<close> when a token is set, none otherwise.
\<close>

definition authHeaders :: "fetchOptions \<Rightarrow> headers" where
  "authHeaders options =
     (case bearerToken options of
        None \<Rightarrow> []
      | Some t \<Rightarrow> [(''Authorization'', ''Bearer '' @ t)])"

text \<open>
  Modelled from the spec: the message of the not-found error of the base fetch, part of
  \<^verbatim>\<open>AbstractFetchStrategy.fetcher\<close> (missing with \<^verbatim>\<open>AbstractFetchStrategy.ts\<close>). The
  spec fixes the kind of the error, not its text.
\<close>

definition noData :: "string \<Rightarrow> string" where
  "noData url = ''The request to '' @ url @ '' returned no data''"

text \<open>
  Modelled from the spec: the envelope of the base fetch, part of
  \<^verbatim>\<open>AbstractFetchStrategy.fetcher\<close> (missing with \<^verbatim>\<open>AbstractFetchStrategy.ts\<close>). The
  result is the body; \<^verbatim>\<open>pageInfo.page\<close> defaults to 1 and the totals are read from
  the headers \<^verbatim>\<open>x-wp-totalpages\<close> and \<^verbatim>\<open>x-wp-total\<close>, defaulting to 1.
\<close>

definition toResponse :: "jsobj \<Rightarrow> response \<Rightarrow> fetchResponse" where
  "toResponse params res =
     \<lparr>result = json res,
      pageInfo =
        \<lparr>page = (case getProp params ''page'' of Undefined \<Rightarrow> 1 | v \<Rightarrow> headerNumber v),
         totalPages = headerNumber (getProp (headers res) ''x-wp-totalpages''),
         totalItems = headerNumber (getProp (headers res) ''x-wp-total'')\<rparr>,
      queriedObject = None\<rparr>"

text \<open>
  Modelled from the spec: \<^verbatim>\<open>AbstractFetchStrategy.fetcher\<close> is defined in
  \<^verbatim>\<open>AbstractFetchStrategy.ts\<close>, whose source is missing. One GET of
  the base URL followed by the endpoint URL, with the bearer header when a token is set;
  a network failure propagates; an empty list of results is a not-found error unless
  \<^verbatim>\<open>throwIfNotFound\<close> is \<^verbatim>\<open>false\<close>; otherwise the envelope is returned.
\<close>

definition AbstractFetchStrategy_fetcher :: "env \<Rightarrow> strategy \<Rightarrow> fetcher" where
  "AbstractFetchStrategy_fetcher env strat url params options =
     await (apiGet env (baseURL strat @ url) (authHeaders options))
       (\<lambda>res.
          if (case throwIfNotFound options of None \<Rightarrow> True | Some b \<Rightarrow> b) \<and> json res = JArr []
          then reject (NotFoundError (noData url))
          else resolve (toResponse params res))"

section \<open>PostsArchiveFetchStrategy\<close>

definition authorsEndpoint :: string where
  "authorsEndpoint = ''/wp-json/wp/v2/users''"

text \<open>
  Modelled from the spec: \<^verbatim>\<open>getCustomTaxonomySlugs\<close> is defined in \<^verbatim>\<open>utils\<close>,
  whose source is missing. It lists the slugs of the registered
  taxonomies.
\<close>

definition getCustomTaxonomySlugs :: "env \<Rightarrow> string list" where
  "getCustomTaxonomySlugs env =
     (case customTaxonomies env of None \<Rightarrow> [] | Some ts \<Rightarrow> map slug ts)"

text \<open>
  Modelled from the spec: \<^verbatim>\<open>getCustomPostType\<close> is defined in \<^verbatim>\<open>utils\<close>,
  whose source is missing. It resolves a post type slug to its registration; a
  value that is not the slug of a registered post type resolves to nothing.
\<close>

definition getCustomPostType :: "env \<Rightarrow> jsval \<Rightarrow> posttype option" where
  "getCustomPostType env v =
     (case v of
        Str s \<Rightarrow> find (\<lambda>p. slug p = s) (customPostTypes env)
      | _ \<Rightarrow> None)"

definition isString :: "jsval \<Rightarrow> bool" where
  "isString v = (case v of Str s \<Rightarrow> True | _ \<Rightarrow> False)"

definition unknownPostType :: string where
  "unknownPostType = ''Unkown post type, did you forget to add it to headless.config.js?''"

text \<open>\<^verbatim>\<open>PostsArchiveFetchStrategy.buildEndpointURL\<close>. It either throws or returns the
  URL, and it may have set the strategy's endpoint.\<close>

definition PostsArchiveFetchStrategy_buildEndpointURL ::
  "env \<Rightarrow> strategy \<Rightarrow> jsobj \<Rightarrow> error + (string \<times> strategy)" where
  "PostsArchiveFetchStrategy_buildEndpointURL env strat params =
     (let endpointParams = omitKeys [''category'', ''tag'', ''postType''] params;
          endpointParams = fold
            (\<lambda>taxonomy ep. if truthy (getProp ep taxonomy) then deleteKey taxonomy ep else ep)
            (getCustomTaxonomySlugs env) endpointParams
      in case (if truthy (getProp params ''postType'')
               then (case getCustomPostType env (getProp params ''postType'') of
                       None \<Rightarrow> Inl (ConfigError unknownPostType)
                     | Some postType \<Rightarrow> Inr (strat\<lparr>currentEndpoint := endpoint postType\<rparr>))
               else Inr strat) of
           Inl e \<Rightarrow> Inl e
         | Inr strat' \<Rightarrow>
             (let endpointParams =
                    (if truthy (getProp params ''author'') \<and> isString (getProp params ''author'')
                        \<and> \<not> useWordPressPlugin env
                     then deleteKey ''author'' endpointParams else endpointParams)
              in Inr (AbstractFetchStrategy_buildEndpointURL env strat' endpointParams, strat')))"

text \<open>The body of the \<^verbatim>\<open>asyncForEach\<close> callback of \<^verbatim>\<open>fetcher\<close> for one taxonomy:
  it resolves to the new \<^verbatim>\<open>finalUrl\<close>. \<^verbatim>\<open>terms.json.length > 0\<close> holds for a
  non-empty array; a body that is an object (the backend's error object) has no
  \<^verbatim>\<open>length\<close>, and the comparison with \<^verbatim>\<open>undefined\<close> is false.\<close>

definition termNotFound :: "jsval \<Rightarrow> string \<Rightarrow> string" where
  "termNotFound v taxonomySlug =
     ''Term '' @ dq @ js_toString v @ dq @ '' from '' @ dq @ taxonomySlug @ dq
       @ '' has not been found''"

definition paramSlugOf :: "taxonomy \<Rightarrow> string" where
  "paramSlugOf taxonomy = (case rewrite taxonomy of None \<Rightarrow> slug taxonomy | Some r \<Rightarrow> r)"

definition restParamOf :: "taxonomy \<Rightarrow> string" where
  "restParamOf taxonomy = (case restParam taxonomy of None \<Rightarrow> slug taxonomy | Some r \<Rightarrow> r)"

definition termLookupUrl :: "strategy \<Rightarrow> taxonomy \<Rightarrow> jsobj \<Rightarrow> string" where
  "termLookupUrl strat taxonomy params =
     baseURL strat @ endpoint taxonomy @ ''?slug=''
       @ js_toString (getProp params (paramSlugOf taxonomy))"

definition resolveTaxonomy ::
  "env \<Rightarrow> strategy \<Rightarrow> jsobj \<Rightarrow> taxonomy \<Rightarrow> string \<Rightarrow> string promise" where
  "resolveTaxonomy env strat params taxonomy finalUrl =
     (let paramSlug = paramSlugOf taxonomy;
          restParam = restParamOf taxonomy
      in if \<not> truthy (getProp params paramSlug) then resolve finalUrl
         else if useWordPressPlugin env
         then resolve (addQueryArgs env finalUrl [(restParam, getProp params paramSlug)])
         else await (apiGet env (termLookupUrl strat taxonomy params) [])
           (\<lambda>terms. case json terms of
                JArr (t # ts) \<Rightarrow>
                  resolve (addQueryArgs env finalUrl [(restParam, getProp t ''id'')])
              | _ \<Rightarrow> reject (NotFoundError (termNotFound (getProp params paramSlug) (slug taxonomy)))))"

text \<open>
  Modelled from the spec: \<^verbatim>\<open>asyncForEach\<close> is defined in \<^verbatim>\<open>utils\<close>,
  whose source is missing. The callback runs for each taxonomy in turn, each run awaited
  before the next; a rejection ends the loop.
\<close>

fun resolveTaxonomies ::
  "env \<Rightarrow> strategy \<Rightarrow> jsobj \<Rightarrow> taxonomy list \<Rightarrow> string \<Rightarrow> string promise" where
  "resolveTaxonomies env strat params [] finalUrl = resolve finalUrl"
| "resolveTaxonomies env strat params (taxonomy # rest) finalUrl =
     await (resolveTaxonomy env strat params taxonomy finalUrl)
       (resolveTaxonomies env strat params rest)"

definition authorNotFound :: "string \<Rightarrow> string" where
  "authorNotFound a = ''Author '' @ dq @ a @ dq @ '' not found''"

definition resolveAuthor :: "env \<Rightarrow> strategy \<Rightarrow> jsobj \<Rightarrow> string \<Rightarrow> string promise" where
  "resolveAuthor env strat params finalUrl =
     (case getProp params ''author'' of
        Str a \<Rightarrow>
          if a \<noteq> [] \<and> \<not> useWordPressPlugin env
          then await (apiGet env (baseURL strat @ authorsEndpoint @ ''?slug='' @ a) [])
            (\<lambda>authors. case json authors of
                 JArr (x # xs) \<Rightarrow> resolve (addQueryArgs env finalUrl [(''author'', getProp x ''id'')])
               | _ \<Rightarrow> reject (NotFoundError (authorNotFound a)))
          else resolve finalUrl
      | _ \<Rightarrow> resolve finalUrl)"

text \<open>The part of \<^verbatim>\<open>fetcher\<close> that precedes \<^verbatim>\<open>super.fetcher\<close>: the taxonomy loop
  and the author lookup, resolving to the final URL.\<close>

definition resolveFinalUrl :: "env \<Rightarrow> strategy \<Rightarrow> string \<Rightarrow> jsobj \<Rightarrow> string promise" where
  "resolveFinalUrl env strat url params =
     await (case customTaxonomies env of
              None \<Rightarrow> resolve url
            | Some ts \<Rightarrow> resolveTaxonomies env strat params ts url)
       (resolveAuthor env strat params)"

text \<open>\<^verbatim>\<open>PostsArchiveFetchStrategy.fetcher\<close>; \<open>super\<close> is \<^verbatim>\<open>super.fetcher\<close>, the
  fetcher of the base strategy.\<close>

definition PostsArchiveFetchStrategy_fetcher ::
  "fetcher \<Rightarrow> env \<Rightarrow> strategy \<Rightarrow> fetcher" where
  "PostsArchiveFetchStrategy_fetcher super env strat url params options =
     await (resolveFinalUrl env strat url params)
       (\<lambda>finalUrl. super finalUrl params options)"

section \<open>SearchFetchStrategy\<close>

text \<open>The \<^verbatim>\<open>try\<close> block: the SEO request, resolving to \<^verbatim>\<open>(seo, seo_json)\<close>.\<close>

definition seoUrl :: "env \<Rightarrow> jsobj \<Rightarrow> string" where
  "seoUrl env params =
     addQueryArgs env (wpUrl env @ endpoints_yoast env)
       [(''url'', Str (wpUrl env @ ''/?s='' @ js_toString (getProp params ''search'')))]"

definition fetchSeo :: "env \<Rightarrow> jsobj \<Rightarrow> (jsval \<times> jsobj) promise" where
  "fetchSeo env params =
     await (apiGet env (seoUrl env params) [])
       (\<lambda>res. case json res of
            JObj ob \<Rightarrow> resolve (getProp ob ''html'', ownProps (getProp ob ''json''))
          | JArr xs \<Rightarrow> resolve (Undefined, []))"

text \<open>\<^verbatim>\<open>SearchFetchStrategy.fetcher\<close>; it takes no options. Its \<^verbatim>\<open>super.fetcher\<close> is
  \<^verbatim>\<open>PostsArchiveFetchStrategy.fetcher\<close>; \<open>base\<close> is the fetcher of the base strategy,
  which that one calls in turn.\<close>

definition SearchFetchStrategy_fetcher ::
  "fetcher \<Rightarrow> env \<Rightarrow> strategy \<Rightarrow> string \<Rightarrow> jsobj \<Rightarrow> fetchResponse promise" where
  "SearchFetchStrategy_fetcher base env strat url params =
     await (tryCatch (fetchSeo env params) (Str [], []))
       (\<lambda>(seo, seo_json).
          await (PostsArchiveFetchStrategy_fetcher base env strat url params
                   \<lparr>throwIfNotFound = Some False, bearerToken = None\<rparr>)
            (\<lambda>response. resolve
               (response\<lparr>queriedObject := Some
                  \<lparr>search = Some
                     \<lparr>searchedValue = nullish (getProp params ''search'') (Str []),
                      type = ''post'',
                      subtype = nullish (getProp params ''postType'') (Str ''post''),
                      yoast_head = seo,
                      yoast_head_json = spread [] seo_json\<rparr>\<rparr>\<rparr>)))"

section \<open>TaxonomyTermsStrategy\<close>

text \<open>\<^verbatim>\<open>getParamsFromURL\<close> ignores both arguments.\<close>

definition TaxonomyTermsStrategy_getParamsFromURL :: "string \<Rightarrow> jsobj \<Rightarrow> jsobj" where
  "TaxonomyTermsStrategy_getParamsFromURL path params = []"

text \<open>\<^verbatim>\<open>fetcher\<close>: \<^verbatim>\<open>super.fetcher(url, params, { ...options, throwIfNotFound: false })\<close>\<close>

definition TaxonomyTermsStrategy_fetcher :: "fetcher \<Rightarrow> fetcher" where
  "TaxonomyTermsStrategy_fetcher super url params options =
     super url params (options\<lparr>throwIfNotFound := Some False\<rparr>)"

section \<open>Response filter\<close>

datatype filterMethod = ALLOW | DENY

text \<open>\<^verbatim>\<open>FilterDataOptions\<close>\<close>

record filterDataOptions =
  methodName :: filterMethod
  filterFields :: "string list"

text \<open>
  Modelled from the spec: \<^verbatim>\<open>removeFields\<close> is defined in \<^verbatim>\<open>utils/dataFilter\<close>,
  whose source is missing. It drops the listed top-level fields, from the item or
  from every item of an array.
\<close>

definition removeFields :: "string list \<Rightarrow> json \<Rightarrow> json" where
  "removeFields fieldsToRemove data =
     (case data of
        JArr xs \<Rightarrow> JArr (map (omitKeys fieldsToRemove) xs)
      | JObj ob \<Rightarrow> JObj (omitKeys fieldsToRemove ob))"

text \<open>
  Modelled from the spec: the fields \<^verbatim>\<open>ALLOW\<close> always keeps, the \<^verbatim>\<open>id\<close> and the
  \<^verbatim>\<open>link\<close> used for internal navigation. The helper that keeps them,
  \<^verbatim>\<open>acceptFields\<close> of \<^verbatim>\<open>utils/dataFilter\<close>, is missing with \<^verbatim>\<open>removeFields\<close>.
\<close>

definition requiredFields :: "string list" where
  "requiredFields = [''id'', ''link'']"

definition keepKeys :: "string list \<Rightarrow> jsobj \<Rightarrow> jsobj" where
  "keepKeys ks ob = filter (\<lambda>kv. fst kv \<in> set ks) ob"

text \<open>
  Modelled from the spec: \<^verbatim>\<open>acceptFields\<close> is defined in \<^verbatim>\<open>utils/dataFilter\<close>,
  whose source is missing. It keeps only the listed top-level fields and the
  required ones, in the item or in every item of an array.
\<close>

definition acceptFields :: "string list \<Rightarrow> json \<Rightarrow> json" where
  "acceptFields fieldsToAccept data =
     (case data of
        JArr xs \<Rightarrow> JArr (map (keepKeys (fieldsToAccept @ requiredFields)) xs)
      | JObj ob \<Rightarrow> JObj (keepKeys (fieldsToAccept @ requiredFields) ob))"

text \<open>
  Modelled from the spec: \<^verbatim>\<open>AbstractFetchStrategy.filterData\<close> is defined in
  \<^verbatim>\<open>AbstractFetchStrategy.ts\<close>,
  whose source is missing. \<^verbatim>\<open>ALLOW\<close>
  keeps only the listed fields (and the required ones), \<^verbatim>\<open>DENY\<close> removes the listed
  fields. The options \<^verbatim>\<open>{ method: 'ALLOW', fields: ['*'] }\<close>, which \<^verbatim>\<open>fetchHookData\<close>
  passes by default, keep every field.
\<close>

definition AbstractFetchStrategy_filterData ::
  "fetchResponse \<Rightarrow> filterDataOptions \<Rightarrow> fetchResponse" where
  "AbstractFetchStrategy_filterData data filterOptions =
     (case methodName filterOptions of
        ALLOW \<Rightarrow>
          if ''*'' \<in> set (filterFields filterOptions) then data
          else data\<lparr>result := acceptFields (filterFields filterOptions) (result data)\<rparr>
      | DENY \<Rightarrow> data\<lparr>result := removeFields (filterFields filterOptions) (result data)\<rparr>)"

text \<open>\<^verbatim>\<open>TaxonomyTermsStrategy.filterData\<close>; \<open>None\<close> is the omitted argument.\<close>

definition TaxonomyTermsStrategy_filterData ::
  "fetchResponse \<Rightarrow> filterDataOptions option \<Rightarrow> fetchResponse" where
  "TaxonomyTermsStrategy_filterData data filterOptions =
     (case filterOptions of
        Some opts \<Rightarrow> AbstractFetchStrategy_filterData data opts
      | None \<Rightarrow> data\<lparr>result := removeFields [''_links''] (result data)\<rparr>)"

section \<open>Path matcher\<close>

text \<open>
  Modelled from the spec: the matcher rules and patterns of \<^verbatim>\<open>utils/matchers\<close> and
  \<^verbatim>\<open>utils/parsePath\<close>, whose sources are missing. A rule has a name, a
  pattern and a priority; a pattern is a sequence of literal segments and named capture
  segments (\<^verbatim>\<open>:name\<close>), separated by \<^verbatim>\<open>/\<close>.
\<close>

datatype segment = Literal string | Capture string

record matcherRule =
  name :: string
  pattern :: string
  priority :: nat

fun splitOn :: "char \<Rightarrow> string \<Rightarrow> string list" where
  "splitOn sep [] = [[]]"
| "splitOn sep (c # cs) =
     (if c = sep then [] # splitOn sep cs
      else (case splitOn sep cs of
              [] \<Rightarrow> [[c]]
            | w # ws \<Rightarrow> (c # w) # ws))"

definition pathSegments :: "string \<Rightarrow> string list" where
  "pathSegments p = filter (\<lambda>s. s \<noteq> []) (splitOn CHR ''/'' p)"

definition patternSegments :: "string \<Rightarrow> segment list" where
  "patternSegments p =
     map (\<lambda>s. case s of
                 c # n \<Rightarrow> if c = CHR '':'' then Capture n else Literal s
               | [] \<Rightarrow> Literal s)
       (pathSegments p)"

text \<open>
  Modelled from the spec: matching one pattern, part of \<^verbatim>\<open>parsePath\<close> (missing with
  \<^verbatim>\<open>utils/parsePath\<close>). A path matches a pattern iff both have the same number of
  segments and every literal segment is equal; a capture takes the URL-decoded path
  component.
\<close>

fun matchSegments :: "(string \<Rightarrow> string) \<Rightarrow> segment list \<Rightarrow> string list \<Rightarrow> jsobj option" where
  "matchSegments decode [] [] = Some []"
| "matchSegments decode (Literal l # ps) (c # cs) =
     (if l = c then matchSegments decode ps cs else None)"
| "matchSegments decode (Capture n # ps) (c # cs) =
     (case matchSegments decode ps cs of
        None \<Rightarrow> None
      | Some captures \<Rightarrow> Some ((n, Str (decode c)) # captures))"
| "matchSegments decode ps cs = None"

definition matches :: "env \<Rightarrow> matcherRule list \<Rightarrow> string \<Rightarrow> (nat \<times> jsobj) list" where
  "matches env rules p =
     concat (map (\<lambda>rule.
        case matchSegments (decodeURIComponent env) (patternSegments (pattern rule)) (pathSegments p) of
          None \<Rightarrow> []
        | Some captures \<Rightarrow> [(priority rule, captures)]) rules)"

text \<open>
  Modelled from the spec: \<^verbatim>\<open>parsePath\<close> is defined in \<^verbatim>\<open>utils/parsePath\<close>,
  whose source is missing. Among the matching rules the one of highest priority wins,
  the earliest registered on a tie, and its captures are the result; no match gives no
  parameters.
\<close>

definition parsePath :: "env \<Rightarrow> matcherRule list \<Rightarrow> string \<Rightarrow> jsobj" where
  "parsePath env rules p =
     (case matches env rules p of
        [] \<Rightarrow> []
      | m # ms \<Rightarrow> snd (fold (\<lambda>x best. if fst best < fst x then x else best) ms m))"

section \<open>SinglePostFetchStrategy\<close>

text \<open>
  Modelled from the spec: the rule set of the single-post strategy, \<^verbatim>\<open>postMatchers\<close>
  of \<^verbatim>\<open>utils/matchers\<close>, is missing. It holds the path shapes of a
  single post: \<^verbatim>\<open>/slug\<close>, the date prefixes \<^verbatim>\<open>/yyyy\<close>, \<^verbatim>\<open>/yyyy/mm\<close> and
  \<^verbatim>\<open>/yyyy/mm/dd\<close> before the slug, \<^verbatim>\<open>/parent/slug\<close>, and the date prefixes before
  \<^verbatim>\<open>/parent/slug\<close>.
\<close>

definition postMatchers :: "matcherRule list" where
  "postMatchers =
     [\<lparr>name = ''slug'', pattern = ''/:slug'', priority = 10\<rparr>,
      \<lparr>name = ''date'', pattern = ''/:year/:slug'', priority = 20\<rparr>,
      \<lparr>name = ''date'', pattern = ''/:year/:month/:slug'', priority = 20\<rparr>,
      \<lparr>name = ''date'', pattern = ''/:year/:month/:day/:slug'', priority = 20\<rparr>,
      \<lparr>name = ''parent'', pattern = ''/:parent/:slug'', priority = 30\<rparr>,
      \<lparr>name = ''date-parent'', pattern = ''/:year/:parent/:slug'', priority = 30\<rparr>,
      \<lparr>name = ''date-parent'', pattern = ''/:year/:month/:parent/:slug'', priority = 30\<rparr>,
      \<lparr>name = ''date-parent'', pattern = ''/:year/:month/:day/:parent/:slug'', priority = 30\<rparr>]"

text \<open>
  Modelled from the spec: \<^verbatim>\<open>SinglePostFetchStrategy.getParamsFromURL\<close> is defined in
  \<^verbatim>\<open>SinglePostFetchStrategy.ts\<close>, whose source is missing (its test suite
  is). The path is parsed with the single-post rules; the \<^verbatim>\<open>slug\<close> capture is kept,
  the date and parent captures are discarded.
\<close>

definition SinglePostFetchStrategy_getParamsFromURL :: "env \<Rightarrow> string \<Rightarrow> jsobj" where
  "SinglePostFetchStrategy_getParamsFromURL env p =
     keepKeys [''slug''] (parsePath env postMatchers p)"

text \<open>The matches of the single-post rules against a path already split into
  segments.\<close>

definition segMatches :: "(string \<Rightarrow> string) \<Rightarrow> string list \<Rightarrow> (nat \<times> jsobj) list" where
  "segMatches decode cs = concat (map (\<lambda>(p, segs).
        case matchSegments decode segs cs of
          None \<Rightarrow> []
        | Some captures \<Rightarrow> [(p, captures)])
     (map (\<lambda>r. (priority r, patternSegments (pattern r))) postMatchers))"

text \<open>
  Modelled from the spec: the endpoint of a parameter set, part of
  \<^verbatim>\<open>SinglePostFetchStrategy.buildEndpointURL\<close> (missing with
  \<^verbatim>\<open>SinglePostFetchStrategy.ts\<close>). The first entry of an array \<^verbatim>\<open>postType\<close> selects
  the endpoint; an unregistered post type is a configuration error; without a post type
  the endpoint is the posts endpoint.
\<close>

definition activePostType :: "jsval \<Rightarrow> jsval" where
  "activePostType v = (case v of Arr [] \<Rightarrow> Undefined | Arr (p # ps) \<Rightarrow> p | _ \<Rightarrow> v)"

definition endpointFor :: "env \<Rightarrow> jsobj \<Rightarrow> error + string" where
  "endpointFor env params =
     (let postType = activePostType (getProp params ''postType'')
      in if truthy postType
         then (case getCustomPostType env postType of
                 None \<Rightarrow> Inl (ConfigError unknownPostType)
               | Some registered \<Rightarrow> Inr (endpoint registered))
         else Inr (endpoints_posts env))"

text \<open>
  Modelled from the spec: \<^verbatim>\<open>SinglePostFetchStrategy.buildEndpointURL\<close> is defined in
  \<^verbatim>\<open>SinglePostFetchStrategy.ts\<close>, whose source is missing. With an
  \<^verbatim>\<open>id\<close> the URL is \<^verbatim>\<open><endpoint>/<id>\<close>, otherwise the endpoint followed by the
  serialized parameters without the selector keys.
\<close>

definition SinglePostFetchStrategy_buildEndpointURL :: "env \<Rightarrow> jsobj \<Rightarrow> error + string" where
  "SinglePostFetchStrategy_buildEndpointURL env params =
     (case endpointFor env params of
           Inl e \<Rightarrow> Inl e
         | Inr ep \<Rightarrow>
             if truthy (getProp params ''id'')
             then Inr (ep @ ''/'' @ js_toString (getProp params ''id''))
             else Inr (addQueryArgs env ep
                         (omitKeys ([''category'', ''tag'', ''postType''] @ getCustomTaxonomySlugs env)
                            params)))"

text \<open>
  Modelled from the spec: the selection among several items returned for one slug, part
  of \<^verbatim>\<open>SinglePostFetchStrategy.fetcher\<close> (missing with
  \<^verbatim>\<open>SinglePostFetchStrategy.ts\<close>). The request path is compared with each item's link;
  the first item whose decoded link ends with the path is taken, the first item if there
  is none.
\<close>

definition endsWith :: "string \<Rightarrow> string \<Rightarrow> bool" where
  "endsWith s suffix =
     (length suffix \<le> length s \<and> drop (length s - length suffix) s = suffix)"

definition linkMatches :: "env \<Rightarrow> string \<Rightarrow> jsobj \<Rightarrow> bool" where
  "linkMatches env p item =
     (case getProp item ''link'' of
        Str l \<Rightarrow> endsWith (decodeURIComponent env l) p
      | _ \<Rightarrow> False)"

definition selectItem :: "env \<Rightarrow> string \<Rightarrow> jsobj \<Rightarrow> jsobj list \<Rightarrow> jsobj" where
  "selectItem env p x xs =
     (case find (linkMatches env p) (x # xs) of Some m \<Rightarrow> m | None \<Rightarrow> x)"

text \<open>
  Modelled from the spec: the envelope of a single item, part of
  \<^verbatim>\<open>SinglePostFetchStrategy.fetcher\<close> (missing with \<^verbatim>\<open>SinglePostFetchStrategy.ts\<close>).
  An empty list is no result; otherwise the result is the selected item, or the object
  the endpoint returned, with the page information of a single page holding one item.
\<close>

definition singlePage :: pageInfo where
  "singlePage = \<lparr>page = 1, totalPages = 1, totalItems = 1\<rparr>"

definition selected :: "env \<Rightarrow> strategy \<Rightarrow> fetchResponse \<Rightarrow> fetchResponse option" where
  "selected env strat res =
     (case result res of
        JArr [] \<Rightarrow> None
      | JArr (x # xs) \<Rightarrow>
          Some (res\<lparr>result := JObj (selectItem env (requestPath strat) x xs), pageInfo := singlePage\<rparr>)
      | JObj ob \<Rightarrow> Some (res\<lparr>pageInfo := singlePage\<rparr>))"

text \<open>
  Modelled from the spec: one attempt, part of \<^verbatim>\<open>SinglePostFetchStrategy.fetcher\<close>
  (missing with \<^verbatim>\<open>SinglePostFetchStrategy.ts\<close>). It fetches one endpoint URL and
  resolves to the selected item, or to \<open>None\<close> when the endpoint returned no item.
\<close>

definition attempt ::
  "env \<Rightarrow> strategy \<Rightarrow> string \<Rightarrow> jsobj \<Rightarrow> fetchOptions \<Rightarrow> fetchResponse option promise" where
  "attempt env strat url params options =
     await (AbstractFetchStrategy_fetcher env strat url params
              (options\<lparr>throwIfNotFound := Some False\<rparr>))
       (\<lambda>res. resolve (selected env strat res))"

text \<open>
  Modelled from the spec: the attempt for one candidate post type, part of
  \<^verbatim>\<open>SinglePostFetchStrategy.fetcher\<close> (missing with \<^verbatim>\<open>SinglePostFetchStrategy.ts\<close>).
  The URL is built for the candidate; a candidate that is not registered is a
  configuration error.
\<close>

definition attemptCandidate ::
  "env \<Rightarrow> strategy \<Rightarrow> jsobj \<Rightarrow> fetchOptions \<Rightarrow> jsval \<Rightarrow> fetchResponse option promise" where
  "attemptCandidate env strat params options postType =
     (case SinglePostFetchStrategy_buildEndpointURL env (spread params [(''postType'', postType)]) of
        Inl e \<Rightarrow> reject e
      | Inr url \<Rightarrow> attempt env strat url (spread params [(''postType'', postType)]) options)"

text \<open>
  Modelled from the spec: the loop over the fallback candidates, part of
  \<^verbatim>\<open>SinglePostFetchStrategy.fetcher\<close> (missing with \<^verbatim>\<open>SinglePostFetchStrategy.ts\<close>).
  The candidates are tried in order; the first that returns an item wins and the
  remaining ones are not tried.
\<close>

fun fallback ::
  "env \<Rightarrow> strategy \<Rightarrow> jsobj \<Rightarrow> fetchOptions \<Rightarrow> jsval list \<Rightarrow> fetchResponse option promise" where
  "fallback env strat params options [] = resolve None"
| "fallback env strat params options (postType # rest) =
     await (attemptCandidate env strat params options postType)
       (\<lambda>found. case found of
            Some res \<Rightarrow> resolve (Some res)
          | None \<Rightarrow> fallback env strat params options rest)"

definition postTypeCandidates :: "jsval \<Rightarrow> jsval list" where
  "postTypeCandidates v = (case v of Arr xs \<Rightarrow> xs | _ \<Rightarrow> [v])"

text \<open>
  Modelled from the spec: the options of the calls, part of
  \<^verbatim>\<open>SinglePostFetchStrategy.fetcher\<close> (missing with \<^verbatim>\<open>SinglePostFetchStrategy.ts\<close>).
  An \<^verbatim>\<open>authToken\<close> parameter becomes the bearer token.
\<close>

definition withAuthToken :: "jsobj \<Rightarrow> fetchOptions \<Rightarrow> fetchOptions" where
  "withAuthToken params options =
     (if truthy (getProp params ''authToken'')
      then options\<lparr>bearerToken := Some (js_toString (getProp params ''authToken''))\<rparr>
      else options)"

text \<open>
  Modelled from the spec: \<^verbatim>\<open>SinglePostFetchStrategy.fetcher\<close> is defined in
  \<^verbatim>\<open>SinglePostFetchStrategy.ts\<close>, whose source is missing (its test suite
  is). With \<^verbatim>\<open>revision\<close> and \<^verbatim>\<open>id\<close> set, \<^verbatim>\<open><endpoint>/<id>/revisions?per_page=1\<close>
  is fetched first, and a failure of that call propagates; with an \<^verbatim>\<open>id\<close> the URL
  handed over by \<^verbatim>\<open>buildEndpointURL\<close> is \<^verbatim>\<open><endpoint>/<id>\<close>. Then the URL is
  fetched, which is that of the first candidate, and after it the remaining candidates
  of an array \<^verbatim>\<open>postType\<close>; candidates exhausted without an item is the not-found
  error. The spec names the two calls of a revision and their order; the envelope is
  that of the resource.
\<close>

definition SinglePostFetchStrategy_fetcher :: "env \<Rightarrow> strategy \<Rightarrow> fetcher" where
  "SinglePostFetchStrategy_fetcher env strat url params options =
     (let options = withAuthToken params options
      in await
           (if truthy (getProp params ''revision'') \<and> truthy (getProp params ''id'')
            then await (apiGet env (baseURL strat @ url @ ''/revisions?per_page=1'')
                          (authHeaders options))
                   (\<lambda>revisions. resolve ())
            else resolve ())
           (\<lambda>u. await (attempt env strat url params options)
              (\<lambda>found. case found of
                   Some res \<Rightarrow> resolve res
                 | None \<Rightarrow>
                     await (fallback env strat params options
                              (tl (postTypeCandidates (getProp params ''postType''))))
                       (\<lambda>found. case found of
                            Some res \<Rightarrow> resolve res
                          | None \<Rightarrow> reject (NotFoundError (noData url))))))"

text \<open>The URL and the logged call of one candidate post type, and whether every
  candidate of a list, tried in order from a given log, came back with an empty list.\<close>

definition candidateUrl :: "env \<Rightarrow> jsobj \<Rightarrow> jsval \<Rightarrow> string" where
  "candidateUrl env params postType =
     (case SinglePostFetchStrategy_buildEndpointURL env (spread params [(''postType'', postType)]) of
        Inl e \<Rightarrow> []
      | Inr url \<Rightarrow> url)"

definition candidateCall :: "env \<Rightarrow> strategy \<Rightarrow> jsobj \<Rightarrow> fetchOptions \<Rightarrow> jsval \<Rightarrow> call" where
  "candidateCall env strat params options postType =
     (baseURL strat @ candidateUrl env params postType, authHeaders options)"

fun candidatesEmpty ::
  "env \<Rightarrow> strategy \<Rightarrow> jsobj \<Rightarrow> fetchOptions \<Rightarrow> jsval list \<Rightarrow> call list \<Rightarrow> bool" where
  "candidatesEmpty env strat params options [] log = True"
| "candidatesEmpty env strat params options (postType # rest) log =
     (case SinglePostFetchStrategy_buildEndpointURL env (spread params [(''postType'', postType)]) of
        Inl e \<Rightarrow> False
      | Inr url \<Rightarrow>
          (case fetch env log (addQueryArgs env (baseURL strat @ url) []) (authHeaders options) of
             Inl reason \<Rightarrow> False
           | Inr res \<Rightarrow>
               json res = JArr []
               \<and> candidatesEmpty env strat params options rest
                   (log @ [(baseURL strat @ url, authHeaders options)])))"

section \<open>fetchHookData\<close>

text \<open>\<^verbatim>\<open>convertToPath\<close>; \<open>None\<close> is \<^verbatim>\<open>undefined\<close>.\<close>

definition convertToPath :: "string list option \<Rightarrow> string" where
  "convertToPath args =
     (case args of None \<Rightarrow> ''/'' | Some xs \<Rightarrow> ''/'' @ joinWith ''/'' xs)"

text \<open>\<^verbatim>\<open>const finalParams = { _embed: true, ...urlParams, ...params }\<close>\<close>

definition finalParams :: "jsobj \<Rightarrow> jsobj \<Rightarrow> jsobj" where
  "finalParams urlParams params = spread (spread [(''_embed'', Bool True)] urlParams) params"

text \<open>
  \<^verbatim>\<open>fetchStrategy.fetcher(fetchStrategy.buildEndpointURL(finalParams), finalParams,
  options.fetchStrategyOptions)\<close> for the posts archive strategy: the argument is
  evaluated first, so a throwing \<^verbatim>\<open>buildEndpointURL\<close> means \<^verbatim>\<open>fetcher\<close> is never
  entered.
\<close>

definition PostsArchiveFetchStrategy_fetchHookData ::
  "fetcher \<Rightarrow> env \<Rightarrow> strategy \<Rightarrow> jsobj \<Rightarrow> fetchOptions \<Rightarrow> fetchResponse promise" where
  "PostsArchiveFetchStrategy_fetchHookData super env strat params options =
     (case PostsArchiveFetchStrategy_buildEndpointURL env strat params of
        Inl e \<Rightarrow> reject e
      | Inr (url, strat') \<Rightarrow>
          PostsArchiveFetchStrategy_fetcher super env strat' url params options)"

text \<open>The same call for the search strategy, which inherits \<^verbatim>\<open>buildEndpointURL\<close>;
  its \<^verbatim>\<open>fetcher\<close> has two parameters, so the third argument is dropped.\<close>

definition SearchFetchStrategy_fetchHookData ::
  "fetcher \<Rightarrow> env \<Rightarrow> strategy \<Rightarrow> jsobj \<Rightarrow> fetchOptions \<Rightarrow> fetchResponse promise" where
  "SearchFetchStrategy_fetchHookData base env strat params options =
     (case PostsArchiveFetchStrategy_buildEndpointURL env strat params of
        Inl e \<Rightarrow> reject e
      | Inr (url, strat') \<Rightarrow> SearchFetchStrategy_fetcher base env strat' url params)"

text \<open>The same call for the single-post strategy; the strategy has been given the
  request path.\<close>

definition SinglePostFetchStrategy_fetchHookData ::
  "env \<Rightarrow> strategy \<Rightarrow> jsobj \<Rightarrow> fetchOptions \<Rightarrow> fetchResponse promise" where
  "SinglePostFetchStrategy_fetchHookData env strat params options =
     (case SinglePostFetchStrategy_buildEndpointURL env params of
        Inl e \<Rightarrow> reject e
      | Inr url \<Rightarrow> SinglePostFetchStrategy_fetcher env strat url params options)"

section \<open>Worked examples\<close>

text \<open>A plain serializer for the examples: \<^verbatim>\<open>key=value\<close> pairs joined by
  \<^verbatim>\<open>&\<close>, no escaping.\<close>

definition exampleAddQueryArgs :: "string \<Rightarrow> jsobj \<Rightarrow> string" where
  "exampleAddQueryArgs url args =
     (if args = [] then url
      else url @ (if CHR ''?'' \<in> set url then ''&'' else ''?'')
             @ joinWith ''&'' (map (\<lambda>kv. fst kv @ ''='' @ js_toString (snd kv)) args))"

definition book :: posttype where
  "book = \<lparr>slug = ''book'', endpoint = ''/wp-json/wp/v2/book'', single = None, archive = None\<rparr>"

definition post :: posttype where
  "post = \<lparr>slug = ''post'', endpoint = ''/wp-json/wp/v2/posts'', single = Some ''/'', archive = None\<rparr>"

definition category :: taxonomy where
  "category = \<lparr>slug = ''category'', endpoint = ''/wp-json/wp/v2/categories'',
                rewrite = None, restParam = Some ''categories''\<rparr>"

definition post_tag :: taxonomy where
  "post_tag = \<lparr>slug = ''post_tag'', endpoint = ''/wp-json/wp/v2/tags'',
                rewrite = Some ''tag'', restParam = Some ''tags''\<rparr>"

text \<open>An environment whose backend knows no term, no author and no post: every request
  is answered with an empty array.\<close>

definition emptyBackend :: env where
  "emptyBackend =
     \<lparr>useWordPressPlugin = False,
      customTaxonomies = Some [post_tag, category],
      customPostTypes = [book, post],
      wpUrl = [],
      endpoints_posts = ''/wp-json/wp/v2/posts'',
      endpoints_category = ''/wp-json/wp/v2/categories'',
      endpoints_yoast = ''/wp-json/yoast/v1/get_head'',
      addQueryArgs = exampleAddQueryArgs,
      decodeURIComponent = (\<lambda>s. s),
      fetch = (\<lambda>log url args. Inr \<lparr>headers = [], json = JArr []\<rparr>)\<rparr>"

definition postsStrategy :: strategy where
  "postsStrategy = \<lparr>baseURL = [], currentEndpoint = ''/wp-json/wp/v2/posts'', requestPath = []\<rparr>"

definition startsWith :: "string \<Rightarrow> string \<Rightarrow> bool" where
  "startsWith s p = (take (length p) s = p)"

text \<open>The same backend with the SEO endpoint out of reach.\<close>

definition seoDownBackend :: env where
  "seoDownBackend =
     emptyBackend\<lparr>fetch := (\<lambda>log url args.
        if startsWith url ''/wp-json/yoast'' then Inl ''connection refused''
        else Inr \<lparr>headers = [], json = JArr []\<rparr>)\<rparr>"

text \<open>What a search without results resolves to when the SEO request failed.\<close>

definition emptySearchResponse :: "jsval \<Rightarrow> fetchResponse" where
  "emptySearchResponse searched =
     \<lparr>result = JArr [],
      pageInfo = \<lparr>page = 1, totalPages = 1, totalItems = 1\<rparr>,
      queriedObject = Some \<lparr>search = Some
        \<lparr>searchedValue = searched, type = ''post'', subtype = Str ''post'',
         yoast_head = Str [], yoast_head_json = []\<rparr>\<rparr>\<rparr>"

fun includesStr :: "string \<Rightarrow> string \<Rightarrow> bool" where
  "includesStr [] sub = (sub = [])"
| "includesStr (c # cs) sub = (startsWith (c # cs) sub \<or> includesStr cs sub)"

definition pagePostType :: posttype where
  "pagePostType = \<lparr>slug = ''page'', endpoint = ''/wp-json/wp/v2/pages'', single = Some ''/'', archive = None\<rparr>"

text \<open>The backend of the test \<^verbatim>\<open>fetches content properly\<close>: the book and pages
  endpoints answer with an empty list, every other endpoint with one post.\<close>

definition testBackend :: env where
  "testBackend =
     emptyBackend
       \<lparr>customPostTypes := [book, pagePostType, post],
        fetch := (\<lambda>log url args.
          if includesStr url ''/wp/v2/book'' \<or> includesStr url ''/wp/v2/pages''
          then Inr \<lparr>headers = [], json = JArr []\<rparr>
          else Inr \<lparr>headers = [],
                    json = JArr [[(''id'', Num 1), (''link'', Str ''/2021/10/post-name'')]]\<rparr>)\<rparr>"

text \<open>The backend and the strategy of the test \<^verbatim>\<open>handles child pages with same slugs
  and different parents\<close>.\<close>

definition childPost1 :: jsobj where
  "childPost1 = [(''title'', Str ''test''), (''id'', Num 1),
                 (''link'', Str ''http://sourceurl.com/parent-page/about'')]"

definition childPost2 :: jsobj where
  "childPost2 = [(''title'', Str ''test''), (''id'', Num 2),
                 (''link'', Str ''http://sourceurl.com/parent-page-2/about'')]"

definition childPagesBackend :: env where
  "childPagesBackend =
     emptyBackend
       \<lparr>fetch := (\<lambda>log url args.
          Inr \<lparr>headers = [(''x-wp-totalpages'', Num 1), (''x-wp-total'', Num 2)],
               json = JArr [childPost1, childPost2]\<rparr>)\<rparr>"

definition sourceUrlStrategy :: "string \<Rightarrow> strategy" where
  "sourceUrlStrategy p =
     \<lparr>baseURL = ''http://sourceurl.com'', currentEndpoint = ''/wp-json/wp/v2/posts'',
      requestPath = p\<rparr>"

text \<open>A backend that knows the category \<^verbatim>\<open>news\<close> under the id 7.\<close>

definition newsBackend :: env where
  "newsBackend =
     emptyBackend
       \<lparr>fetch := (\<lambda>log url args.
          if includesStr url ''/categories?slug=news''
          then Inr \<lparr>headers = [], json = JArr [[(''id'', Num 7), (''slug'', Str ''news'')]]\<rparr>
          else Inr \<lparr>headers = [], json = JArr [[(''id'', Num 1)]]\<rparr>)\<rparr>"

section \<open>Properties\<close>

subsection \<open>Promises\<close>

lemma await_resolve [simp]: "await (resolve x) f = f x"
  by (simp add: await_def resolve_def)

lemma await_reject [simp]: "await (reject e) f = reject e"
  by (simp add: await_def reject_def)

lemma await_assoc: "await (await m f) g = await m (\<lambda>x. await (f x) g)"
  by (auto simp: await_def fun_eq_iff split: prod.splits sum.splits)

lemma await_Inr: "m log = (Inr x, log') \<Longrightarrow> await m f log = f x log'"
  by (simp add: await_def)

lemma await_Inl: "m log = (Inl e, log') \<Longrightarrow> await m f log = (Inl e, log')"
  by (simp add: await_def)

lemma apiGet_log: "snd (apiGet env url args log) = log @ [(url, args)]"
  by (simp add: apiGet_def)

lemma apiGet_Inr_log: "apiGet env url args log = (Inr res, log') \<Longrightarrow> log' = log @ [(url, args)]"
  by (auto simp: apiGet_def)

subsection \<open>Taxonomy terms: no parameters from the URL\<close>

text \<open>
  Claim C7. \<^verbatim>\<open>TaxonomyTermsStrategy.getParamsFromURL\<close> returns the empty parameter
  set for every path and every \<open>params\<close> argument; the parameters \<^verbatim>\<open>fetchHookData\<close>
  fetches with are therefore the caller's parameters over the \<^verbatim>\<open>_embed\<close> default,
  whatever the path.
\<close>

theorem taxonomy_terms_no_url_params:
  "TaxonomyTermsStrategy_getParamsFromURL p params = []
   \<and> finalParams (TaxonomyTermsStrategy_getParamsFromURL p params) overrides
       = spread [(''_embed'', Bool True)] overrides"
  by (simp add: TaxonomyTermsStrategy_getParamsFromURL_def finalParams_def spread_def)

subsection \<open>Posts archive: unregistered post type\<close>

text \<open>
  Claim C3. When \<^verbatim>\<open>params.postType\<close> names a post type that has no registration,
  \<^verbatim>\<open>buildEndpointURL\<close> throws the configuration error
  \<^verbatim>\<open>Unkown post type, did you forget to add it to headless.config.js?\<close>, and the
  request made of \<^verbatim>\<open>buildEndpointURL\<close> followed by \<^verbatim>\<open>fetcher\<close> rejects with it
  leaving the log of network calls as it was.
\<close>

theorem unregistered_postType_ConfigError:
  assumes "getProp params ''postType'' = Str pt" and "pt \<noteq> []"
    and "pt \<notin> slug ` set (customPostTypes env)"
  shows "PostsArchiveFetchStrategy_buildEndpointURL env strat params
           = Inl (ConfigError ''Unkown post type, did you forget to add it to headless.config.js?'')
       \<and> PostsArchiveFetchStrategy_fetchHookData super env strat params options log
           = (Inl (ConfigError ''Unkown post type, did you forget to add it to headless.config.js?''), log)"
proof -
  from assms(3) have "find (\<lambda>p. slug p = pt) (customPostTypes env) = None"
    by (auto simp: find_None_iff)
  then have none: "getCustomPostType env (getProp params ''postType'') = None"
    by (simp add: getCustomPostType_def assms(1))
  have t: "truthy (getProp params ''postType'')"
    by (simp add: assms)
  have b: "PostsArchiveFetchStrategy_buildEndpointURL env strat params
           = Inl (ConfigError unknownPostType)"
    unfolding PostsArchiveFetchStrategy_buildEndpointURL_def Let_def
    by (simp only: t none if_True option.case sum.case)
  show ?thesis
    using b by (simp add: PostsArchiveFetchStrategy_fetchHookData_def unknownPostType_def reject_def)
qed

theorem unregistered_postType_ConfigError_witness:
  "getProp [(''postType'', Str ''unknown'')] ''postType'' = Str ''unknown''
   \<and> ''unknown'' \<noteq> []
   \<and> ''unknown'' \<notin> slug ` set (customPostTypes emptyBackend)
   \<and> PostsArchiveFetchStrategy_buildEndpointURL emptyBackend postsStrategy
         [(''postType'', Str ''unknown'')]
       = Inl (ConfigError ''Unkown post type, did you forget to add it to headless.config.js?'')
   \<and> PostsArchiveFetchStrategy_fetchHookData (AbstractFetchStrategy_fetcher emptyBackend postsStrategy)
         emptyBackend postsStrategy [(''postType'', Str ''unknown'')] noOptions []
       = (Inl (ConfigError ''Unkown post type, did you forget to add it to headless.config.js?''), [])"
proof -
  have 1: "getProp [(''postType'', Str ''unknown'')] ''postType'' = Str ''unknown''"
    by (simp add: getProp_def)
  have 2: "''unknown'' \<noteq> []" by simp
  have 3: "''unknown'' \<notin> slug ` set (customPostTypes emptyBackend)"
    by (simp add: emptyBackend_def book_def post_def)
  from unregistered_postType_ConfigError [OF 1 2 3] 1 2 3 show ?thesis
    by blast
qed

subsection \<open>Posts archive: taxonomy resolution\<close>

lemma resolveTaxonomies_append:
  "resolveTaxonomies env strat params (pre @ rest) url
     = await (resolveTaxonomies env strat params pre url) (resolveTaxonomies env strat params rest)"
proof (induction pre arbitrary: url)
  case Nil
  show ?case by simp
next
  case (Cons a pre)
  have "resolveTaxonomies env strat params (pre @ rest)
      = (\<lambda>u. await (resolveTaxonomies env strat params pre u) (resolveTaxonomies env strat params rest))"
    by (rule ext) (rule Cons.IH)
  then show ?case by (simp add: await_assoc)
qed

lemma resolveTaxonomy_lookup:
  assumes "\<not> useWordPressPlugin env" and "truthy (getProp params (paramSlugOf taxonomy))"
  shows "resolveTaxonomy env strat params taxonomy finalUrl
     = await (apiGet env (termLookupUrl strat taxonomy params) [])
           (\<lambda>terms. case json terms of
                JArr (t # ts) \<Rightarrow>
                  resolve (addQueryArgs env finalUrl [(restParamOf taxonomy, getProp t ''id'')])
              | _ \<Rightarrow> reject (NotFoundError (termNotFound (getProp params (paramSlugOf taxonomy)) (slug taxonomy))))"
  using assms by (simp add: resolveTaxonomy_def Let_def)

lemma resolveTaxonomies_skip:
  "\<forall>x \<in> set ts. \<not> truthy (getProp params (paramSlugOf x)) \<Longrightarrow>
   resolveTaxonomies env strat params ts url = resolve url"
  by (induction ts) (simp_all add: resolveTaxonomy_def Let_def)

text \<open>
  Claim C2. Let a registered taxonomy have its slug parameter set, with the plugin flag
  off, and let the taxonomies before it have been resolved. Then \<^verbatim>\<open>fetcher\<close> calls the
  taxonomy's term endpoint with \<^verbatim>\<open>?slug=<value>\<close>. If the answer has no term, it
  rejects with the not-found error \<^verbatim>\<open>Term "<value>" from "<taxonomy>" has not been
  found\<close> and makes no further call. If it has one, the id of the first term is added
  to the URL under the taxonomy's REST parameter, and the remaining lookups and
  \<^verbatim>\<open>super.fetcher\<close> run after the lookup call; with nothing else to resolve,
  \<^verbatim>\<open>super.fetcher\<close> gets exactly that URL.
\<close>

theorem taxonomy_term_lookup:
  assumes taxs: "customTaxonomies env = Some (pre @ taxonomy # rest)"
    and flag: "\<not> useWordPressPlugin env"
    and present: "truthy (getProp params (paramSlugOf taxonomy))"
    and pre: "resolveTaxonomies env strat params pre url log = (Inr url1, log1)"
    and lookup: "apiGet env (termLookupUrl strat taxonomy params) [] log1 = (Inr terms, log2)"
  shows "log2 = log1 @ [(baseURL strat @ endpoint taxonomy @ ''?slug=''
                          @ js_toString (getProp params (paramSlugOf taxonomy)), [])]
    \<and> (json terms = JArr [] \<longrightarrow>
         PostsArchiveFetchStrategy_fetcher super env strat url params options log
           = (Inl (NotFoundError
                (''Term '' @ dq @ js_toString (getProp params (paramSlugOf taxonomy)) @ dq
                   @ '' from '' @ dq @ slug taxonomy @ dq @ '' has not been found'')), log2))
    \<and> (\<forall>t ts. json terms = JArr (t # ts) \<longrightarrow>
         PostsArchiveFetchStrategy_fetcher super env strat url params options log
           = await (resolveTaxonomies env strat params rest
                      (addQueryArgs env url1 [(restParamOf taxonomy, getProp t ''id'')]))
               (\<lambda>u. await (resolveAuthor env strat params u)
                  (\<lambda>finalUrl. super finalUrl params options)) log2)
    \<and> (\<forall>t ts. json terms = JArr (t # ts)
          \<and> (\<forall>x \<in> set rest. \<not> truthy (getProp params (paramSlugOf x)))
          \<and> \<not> truthy (getProp params ''author'') \<longrightarrow>
         PostsArchiveFetchStrategy_fetcher super env strat url params options log
           = super (addQueryArgs env url1 [(restParamOf taxonomy, getProp t ''id'')])
               params options log2)"
proof -
  let ?k = "\<lambda>u. await (resolveAuthor env strat params u) (\<lambda>finalUrl. super finalUrl params options)"
  let ?step = "\<lambda>terms. case json terms of
                JArr (t # ts) \<Rightarrow>
                  resolve (addQueryArgs env url1 [(restParamOf taxonomy, getProp t ''id'')])
              | _ \<Rightarrow> reject (NotFoundError (termNotFound (getProp params (paramSlugOf taxonomy)) (slug taxonomy)))"
  have f: "PostsArchiveFetchStrategy_fetcher super env strat url params options log
        = await (?step terms) (\<lambda>u. await (resolveTaxonomies env strat params rest u) ?k) log2"
  proof -
    have "PostsArchiveFetchStrategy_fetcher super env strat url params options
        = await (resolveTaxonomies env strat params pre url)
            (\<lambda>u. await (resolveTaxonomy env strat params taxonomy u)
               (\<lambda>u. await (resolveTaxonomies env strat params rest u) ?k))"
      by (simp add: PostsArchiveFetchStrategy_fetcher_def resolveFinalUrl_def taxs
          resolveTaxonomies_append await_assoc)
    then have "PostsArchiveFetchStrategy_fetcher super env strat url params options log
        = await (resolveTaxonomy env strat params taxonomy url1)
               (\<lambda>u. await (resolveTaxonomies env strat params rest u) ?k) log1"
      using pre by (simp add: await_def)
    also have "\<dots> = await (apiGet env (termLookupUrl strat taxonomy params) [])
         (\<lambda>terms. await (?step terms) (\<lambda>u. await (resolveTaxonomies env strat params rest u) ?k)) log1"
      by (simp add: resolveTaxonomy_lookup [OF flag present] await_assoc)
    also have "\<dots> = await (?step terms) (\<lambda>u. await (resolveTaxonomies env strat params rest u) ?k) log2"
      using lookup by (simp add: await_def)
    finally show ?thesis .
  qed
  have l: "log2 = log1 @ [(baseURL strat @ endpoint taxonomy @ ''?slug=''
                          @ js_toString (getProp params (paramSlugOf taxonomy)), [])]"
    using apiGet_Inr_log [OF lookup] by (simp add: termLookupUrl_def)
  have a: "json terms = JArr [] \<longrightarrow>
         PostsArchiveFetchStrategy_fetcher super env strat url params options log
           = (Inl (NotFoundError
                (''Term '' @ dq @ js_toString (getProp params (paramSlugOf taxonomy)) @ dq
                   @ '' from '' @ dq @ slug taxonomy @ dq @ '' has not been found'')), log2)"
    by (simp add: f termNotFound_def) (simp add: reject_def)
  have b: "\<forall>t ts. json terms = JArr (t # ts) \<longrightarrow>
         PostsArchiveFetchStrategy_fetcher super env strat url params options log
           = await (resolveTaxonomies env strat params rest
                      (addQueryArgs env url1 [(restParamOf taxonomy, getProp t ''id'')]))
               ?k log2"
    by (simp add: f)
  have c: "\<forall>t ts. json terms = JArr (t # ts)
          \<and> (\<forall>x \<in> set rest. \<not> truthy (getProp params (paramSlugOf x)))
          \<and> \<not> truthy (getProp params ''author'') \<longrightarrow>
         PostsArchiveFetchStrategy_fetcher super env strat url params options log
           = super (addQueryArgs env url1 [(restParamOf taxonomy, getProp t ''id'')])
               params options log2"
  proof (intro allI impI, elim conjE)
    fix t ts
    assume j: "json terms = JArr (t # ts)"
      and r: "\<forall>x \<in> set rest. \<not> truthy (getProp params (paramSlugOf x))"
      and au: "\<not> truthy (getProp params ''author'')"
    have "resolveAuthor env strat params = resolve"
      using au by (auto simp: resolveAuthor_def fun_eq_iff split: jsval.splits)
    then show "PostsArchiveFetchStrategy_fetcher super env strat url params options log
           = super (addQueryArgs env url1 [(restParamOf taxonomy, getProp t ''id'')])
               params options log2"
      by (simp add: f j resolveTaxonomies_skip [OF r])
  qed
  show ?thesis using l a b c by blast
qed

theorem taxonomy_term_lookup_witness:
  "customTaxonomies emptyBackend = Some ([post_tag] @ category # [])
   \<and> \<not> useWordPressPlugin emptyBackend
   \<and> truthy (getProp [(''category'', Str ''news'')] (paramSlugOf category))
   \<and> resolveTaxonomies emptyBackend postsStrategy [(''category'', Str ''news'')] [post_tag]
         ''/wp-json/wp/v2/posts'' [] = (Inr ''/wp-json/wp/v2/posts'', [])
   \<and> apiGet emptyBackend (termLookupUrl postsStrategy category [(''category'', Str ''news'')]) [] []
         = (Inr \<lparr>headers = [], json = JArr []\<rparr>, [(''/wp-json/wp/v2/categories?slug=news'', [])])
   \<and> PostsArchiveFetchStrategy_fetcher (AbstractFetchStrategy_fetcher emptyBackend postsStrategy)
         emptyBackend postsStrategy ''/wp-json/wp/v2/posts'' [(''category'', Str ''news'')] noOptions []
         = (Inl (NotFoundError (''Term '' @ dq @ ''news'' @ dq @ '' from '' @ dq @ ''category'' @ dq
                                  @ '' has not been found'')),
            [(''/wp-json/wp/v2/categories?slug=news'', [])])"
proof -
  let ?params = "[(''category'', Str ''news'')]"
  have h1: "customTaxonomies emptyBackend = Some ([post_tag] @ category # [])"
    by (simp add: emptyBackend_def)
  have h2: "\<not> useWordPressPlugin emptyBackend"
    by (simp add: emptyBackend_def)
  have h3: "truthy (getProp ?params (paramSlugOf category))"
    by (simp add: getProp_def paramSlugOf_def category_def)
  have h4: "resolveTaxonomies emptyBackend postsStrategy ?params [post_tag]
         ''/wp-json/wp/v2/posts'' [] = (Inr ''/wp-json/wp/v2/posts'', [])"
    by (simp add: resolveTaxonomy_def getProp_def paramSlugOf_def post_tag_def resolve_def await_def)
  have h5: "apiGet emptyBackend (termLookupUrl postsStrategy category ?params) [] []
         = (Inr \<lparr>headers = [], json = JArr []\<rparr>, [(''/wp-json/wp/v2/categories?slug=news'', [])])"
    by (simp add: apiGet_def emptyBackend_def termLookupUrl_def postsStrategy_def category_def
        paramSlugOf_def getProp_def)
  have j: "json \<lparr>headers = [], json = JArr []\<rparr> = JArr []"
    by simp
  have s: "js_toString (getProp ?params (paramSlugOf category)) = ''news''"
    by (simp add: getProp_def paramSlugOf_def category_def)
  have c: "slug category = ''category''"
    by (simp add: category_def)
  from taxonomy_term_lookup [OF h1 h2 h3 h4 h5, of "AbstractFetchStrategy_fetcher emptyBackend postsStrategy"
      "noOptions"] j
  have "PostsArchiveFetchStrategy_fetcher (AbstractFetchStrategy_fetcher emptyBackend postsStrategy)
         emptyBackend postsStrategy ''/wp-json/wp/v2/posts'' ?params noOptions []
         = (Inl (NotFoundError
                (''Term '' @ dq @ js_toString (getProp ?params (paramSlugOf category)) @ dq
                   @ '' from '' @ dq @ slug category @ dq @ '' has not been found'')),
            [(''/wp-json/wp/v2/categories?slug=news'', [])])"
    by blast
  then have "PostsArchiveFetchStrategy_fetcher (AbstractFetchStrategy_fetcher emptyBackend postsStrategy)
         emptyBackend postsStrategy ''/wp-json/wp/v2/posts'' ?params noOptions []
         = (Inl (NotFoundError (''Term '' @ dq @ ''news'' @ dq @ '' from '' @ dq @ ''category'' @ dq
                                  @ '' has not been found'')),
            [(''/wp-json/wp/v2/categories?slug=news'', [])])"
    by (simp only: s c)
  with h1 h2 h3 h4 h5 show ?thesis by blast
qed

subsection \<open>Search and taxonomy terms: the base fetch never throws not-found\<close>

lemma tryCatch_fetchSeo:
  "tryCatch (fetchSeo env params) d log
     = (Inr (case fetch env log (addQueryArgs env (seoUrl env params) []) [] of
               Inl reason \<Rightarrow> d
             | Inr res \<Rightarrow> (case json res of
                            JObj ob \<Rightarrow> (getProp ob ''html'', ownProps (getProp ob ''json''))
                          | JArr xs \<Rightarrow> (Undefined, []))),
        log @ [(seoUrl env params, [])])"
  by (simp add: tryCatch_def fetchSeo_def apiGet_def await_def resolve_def
      split: sum.splits json.splits)

lemma Search_fetcher_unfold:
  "SearchFetchStrategy_fetcher base env strat url params log
     = (let seo = (case fetch env log (addQueryArgs env (seoUrl env params) []) [] of
               Inl reason \<Rightarrow> (Str [], [])
             | Inr res \<Rightarrow> (case json res of
                            JObj ob \<Rightarrow> (getProp ob ''html'', ownProps (getProp ob ''json''))
                          | JArr xs \<Rightarrow> (Undefined, [])))
        in case PostsArchiveFetchStrategy_fetcher base env strat url params
                  \<lparr>throwIfNotFound = Some False, bearerToken = None\<rparr>
                  (log @ [(seoUrl env params, [])]) of
             (Inl e, l) \<Rightarrow> (Inl e, l)
           | (Inr response, l) \<Rightarrow>
               (Inr (response\<lparr>queriedObject := Some
                  \<lparr>search = Some
                     \<lparr>searchedValue = nullish (getProp params ''search'') (Str []),
                      type = ''post'',
                      subtype = nullish (getProp params ''postType'') (Str ''post''),
                      yoast_head = fst seo,
                      yoast_head_json = spread [] (snd seo)\<rparr>\<rparr>\<rparr>), l))"
  unfolding SearchFetchStrategy_fetcher_def
  by (simp add: await_def tryCatch_fetchSeo Let_def resolve_def split: prod.splits sum.splits)

lemmas run_simps =
  SearchFetchStrategy_fetcher_def tryCatch_def fetchSeo_def apiGet_def await_def resolve_def
  reject_def seoDownBackend_def emptyBackend_def seoUrl_def exampleAddQueryArgs_def getProp_def
  startsWith_def PostsArchiveFetchStrategy_fetcher_def resolveFinalUrl_def resolveTaxonomy_def
  paramSlugOf_def restParamOf_def termLookupUrl_def post_tag_def category_def resolveAuthor_def
  AbstractFetchStrategy_fetcher_def toResponse_def authHeaders_def postsStrategy_def spread_def

text \<open>
  Claim C9. \<^verbatim>\<open>TaxonomyTermsStrategy.fetcher\<close> hands \<^verbatim>\<open>super.fetcher\<close> the caller's
  options with \<^verbatim>\<open>throwIfNotFound\<close> set to \<^verbatim>\<open>false\<close>, also when the caller passed
  \<^verbatim>\<open>true\<close>. \<^verbatim>\<open>SearchFetchStrategy.fetcher\<close> has no options parameter: the base
  fetch it reaches is only ever given \<^verbatim>\<open>{ throwIfNotFound: false }\<close>, so replacing the
  base fetch by one that ignores its options and uses these changes nothing, and the
  options \<^verbatim>\<open>fetchHookData\<close> passes as third argument have no effect.
\<close>

theorem throwIfNotFound_always_false:
  "TaxonomyTermsStrategy_fetcher super url params options
     = super url params (options\<lparr>throwIfNotFound := Some False\<rparr>)
   \<and> TaxonomyTermsStrategy_fetcher super url params (options\<lparr>throwIfNotFound := Some True\<rparr>)
     = super url params (options\<lparr>throwIfNotFound := Some False\<rparr>)
   \<and> SearchFetchStrategy_fetcher base env strat url params
     = SearchFetchStrategy_fetcher
         (\<lambda>u p opts. base u p \<lparr>throwIfNotFound = Some False, bearerToken = None\<rparr>)
         env strat url params
   \<and> SearchFetchStrategy_fetchHookData base env strat params options
     = SearchFetchStrategy_fetchHookData base env strat params noOptions"
proof -
  have "SearchFetchStrategy_fetcher base env strat url params
     = SearchFetchStrategy_fetcher
         (\<lambda>u p opts. base u p \<lparr>throwIfNotFound = Some False, bearerToken = None\<rparr>)
         env strat url params"
    by (simp add: SearchFetchStrategy_fetcher_def PostsArchiveFetchStrategy_fetcher_def)
  then show ?thesis
    by (simp add: TaxonomyTermsStrategy_fetcher_def SearchFetchStrategy_fetchHookData_def)
qed

subsection \<open>Search: the queried object\<close>

text \<open>
  Claim C10. Every response \<^verbatim>\<open>SearchFetchStrategy.fetcher\<close> resolves to, whatever its
  result list, carries \<^verbatim>\<open>queriedObject.search\<close> with \<^verbatim>\<open>type\<close> \<^verbatim>\<open>'post'\<close>,
  \<^verbatim>\<open>searchedValue\<close> equal to \<^verbatim>\<open>params.search ?? ''\<close> (the empty string when
  \<^verbatim>\<open>search\<close> is absent), \<^verbatim>\<open>subtype\<close> equal to \<^verbatim>\<open>params.postType ?? 'post'\<close>
  (\<^verbatim>\<open>'post'\<close> when \<^verbatim>\<open>postType\<close> is absent), and, when the SEO request failed,
  \<^verbatim>\<open>yoast_head\<close> the empty string and \<^verbatim>\<open>yoast_head_json\<close> the empty object.
\<close>

theorem search_queriedObject:
  assumes "SearchFetchStrategy_fetcher base env strat url params log = (Inr r, log')"
  shows "\<exists>s. queriedObject r = Some \<lparr>search = Some s\<rparr>
           \<and> type s = ''post''
           \<and> searchedValue s = nullish (getProp params ''search'') (Str [])
           \<and> subtype s = nullish (getProp params ''postType'') (Str ''post'')
           \<and> (map_of params ''search'' = None \<longrightarrow> searchedValue s = Str [])
           \<and> (map_of params ''postType'' = None \<longrightarrow> subtype s = Str ''post'')
           \<and> ((\<exists>reason. fetch env log (addQueryArgs env (seoUrl env params) []) [] = Inl reason)
                \<longrightarrow> yoast_head s = Str [] \<and> yoast_head_json s = [])"
  using assms unfolding Search_fetcher_unfold Let_def
  by (auto simp: getProp_def spread_def split: prod.splits sum.splits)

theorem search_queriedObject_witness:
  "SearchFetchStrategy_fetcher (AbstractFetchStrategy_fetcher seoDownBackend postsStrategy)
         seoDownBackend postsStrategy ''/wp-json/wp/v2/posts'' [] []
       = (Inr (emptySearchResponse (Str [])),
          [(''/wp-json/yoast/v1/get_head?url=/?s=undefined'', []), (''/wp-json/wp/v2/posts'', [])])
   \<and> (\<exists>s. queriedObject (emptySearchResponse (Str [])) = Some \<lparr>search = Some s\<rparr>
           \<and> type s = ''post''
           \<and> searchedValue s = Str []
           \<and> subtype s = Str ''post''
           \<and> yoast_head s = Str [] \<and> yoast_head_json s = [])"
proof -
  have run: "SearchFetchStrategy_fetcher (AbstractFetchStrategy_fetcher seoDownBackend postsStrategy)
         seoDownBackend postsStrategy ''/wp-json/wp/v2/posts'' [] []
       = (Inr (emptySearchResponse (Str [])),
          [(''/wp-json/yoast/v1/get_head?url=/?s=undefined'', []), (''/wp-json/wp/v2/posts'', [])])"
    by (simp add: run_simps emptySearchResponse_def)
  have down: "\<exists>reason. fetch seoDownBackend []
                 (addQueryArgs seoDownBackend (seoUrl seoDownBackend []) []) [] = Inl reason"
    by (simp add: run_simps)
  have absent: "map_of ([] :: jsobj) ''search'' = None" "map_of ([] :: jsobj) ''postType'' = None"
    by simp_all
  from search_queriedObject [OF run] down absent run show ?thesis
    by blast
qed

subsection \<open>Search: no results and a failed SEO request\<close>

lemma resolveTaxonomy_error:
  "resolveTaxonomy env strat params t u log = (Inl e, log') \<Longrightarrow>
   (\<exists>r. e = TransportError r) \<or> e = NotFoundError (termNotFound (getProp params (paramSlugOf t)) (slug t))"
  by (auto simp: resolveTaxonomy_def Let_def resolve_def reject_def await_def apiGet_def
      split: if_splits sum.splits json.splits list.splits)

lemma resolveTaxonomies_error:
  "resolveTaxonomies env strat params ts u log = (Inl e, log') \<Longrightarrow>
   (\<exists>r. e = TransportError r)
   \<or> (\<exists>t. e = NotFoundError (termNotFound (getProp params (paramSlugOf t)) (slug t)))"
proof (induction ts arbitrary: u log)
  case Nil
  then show ?case by (simp add: resolve_def)
next
  case (Cons t ts)
  show ?case
  proof (cases "resolveTaxonomy env strat params t u log")
    case (Pair outcome l)
    show ?thesis
    proof (cases outcome)
      case (Inl e')
      with Pair Cons.prems have "e' = e" by (simp add: await_def)
      with Pair Inl resolveTaxonomy_error [of env strat params t u log e l] show ?thesis
        by blast
    next
      case (Inr u')
      with Pair Cons.prems have "resolveTaxonomies env strat params ts u' l = (Inl e, log')"
        by (simp add: await_def)
      then show ?thesis by (rule Cons.IH)
    qed
  qed
qed

lemma resolveAuthor_error:
  "resolveAuthor env strat params u log = (Inl e, log') \<Longrightarrow>
   (\<exists>r. e = TransportError r) \<or> (\<exists>a. e = NotFoundError (authorNotFound a))"
  by (auto simp: resolveAuthor_def resolve_def reject_def await_def apiGet_def
      split: if_splits sum.splits json.splits list.splits jsval.splits)

lemma resolveFinalUrl_error:
  assumes "resolveFinalUrl env strat url params log = (Inl e, log')"
  shows "(\<exists>r. e = TransportError r)
   \<or> (\<exists>t. e = NotFoundError (termNotFound (getProp params (paramSlugOf t)) (slug t)))
   \<or> (\<exists>a. e = NotFoundError (authorNotFound a))"
proof (cases "(case customTaxonomies env of
              None \<Rightarrow> resolve url
            | Some ts \<Rightarrow> resolveTaxonomies env strat params ts url) log")
  case (Pair outcome l)
  show ?thesis
  proof (cases outcome)
    case (Inl e')
    with Pair assms have e: "e' = e" by (simp add: resolveFinalUrl_def await_def)
    show ?thesis
    proof (cases "customTaxonomies env")
      case None
      with Pair Inl show ?thesis by (simp add: resolve_def)
    next
      case (Some ts)
      with Pair Inl e have "resolveTaxonomies env strat params ts url log = (Inl e, l)" by simp
      from resolveTaxonomies_error [OF this] show ?thesis by blast
    qed
  next
    case (Inr u)
    with Pair assms have "resolveAuthor env strat params u l = (Inl e, log')"
      by (simp add: resolveFinalUrl_def await_def)
    from resolveAuthor_error [OF this] show ?thesis by blast
  qed
qed

lemma base_fetch_no_throw:
  "AbstractFetchStrategy_fetcher env strat url params
     \<lparr>throwIfNotFound = Some False, bearerToken = None\<rparr> log = (Inl e, log') \<Longrightarrow>
   \<exists>r. e = TransportError r"
  by (auto simp: AbstractFetchStrategy_fetcher_def await_def apiGet_def resolve_def
      split: sum.splits)

lemma search_not_found_origin:
  assumes "SearchFetchStrategy_fetcher (AbstractFetchStrategy_fetcher env strat) env strat
             url params log = (Inl (NotFoundError m), log')"
  shows "(\<exists>t. m = termNotFound (getProp params (paramSlugOf t)) (slug t))
       \<or> (\<exists>a. m = authorNotFound a)"
proof -
  let ?l = "log @ [(seoUrl env params, [])]"
  let ?opts = "\<lparr>throwIfNotFound = Some False, bearerToken = None\<rparr>"
  from assms obtain l where
    a: "PostsArchiveFetchStrategy_fetcher (AbstractFetchStrategy_fetcher env strat) env strat
          url params ?opts ?l = (Inl (NotFoundError m), l)"
    by (auto simp: Search_fetcher_unfold Let_def split: prod.splits sum.splits)
  show ?thesis
  proof (cases "resolveFinalUrl env strat url params ?l")
    case (Pair outcome l1)
    show ?thesis
    proof (cases outcome)
      case (Inl e)
      with Pair a have "e = NotFoundError m"
        by (simp add: PostsArchiveFetchStrategy_fetcher_def await_def)
      with Pair Inl resolveFinalUrl_error [of env strat url params ?l e l1] show ?thesis
        by auto
    next
      case (Inr u)
      with Pair a have "AbstractFetchStrategy_fetcher env strat u params ?opts l1
                          = (Inl (NotFoundError m), l)"
        by (simp add: PostsArchiveFetchStrategy_fetcher_def await_def)
      from base_fetch_no_throw [OF this] show ?thesis by simp
    qed
  qed
qed

text \<open>
  Claim C4. When the taxonomy and author resolution of a search has produced the final
  URL and the backend answers the search itself with an empty list, the fetch resolves
  to an envelope whose result list is empty; it does not reject. When the SEO request
  fails, the outcome of the search is that of the archive fetch with
  \<^verbatim>\<open>throwIfNotFound: false\<close>, the failure is not passed on, and the SEO fields of the
  queried object are the empty string and the empty object. A search rejects with a
  not-found error only for a term or an author that a lookup did not find, never for an
  empty list of results.
\<close>

theorem search_zero_results_and_seo_failure:
  "(resolveFinalUrl env strat url params (log @ [(seoUrl env params, [])]) = (Inr finalUrl, log2)
      \<and> apiGet env (baseURL strat @ finalUrl) [] log2 = (Inr res, log3)
      \<and> json res = JArr []
    \<longrightarrow> (\<exists>r. SearchFetchStrategy_fetcher (AbstractFetchStrategy_fetcher env strat) env strat
                 url params log = (Inr r, log3)
              \<and> result r = JArr []))
   \<and> (fetch env log (addQueryArgs env (seoUrl env params) []) [] = Inl reason
    \<longrightarrow> SearchFetchStrategy_fetcher base env strat url params log
          = (case PostsArchiveFetchStrategy_fetcher base env strat url params
                    \<lparr>throwIfNotFound = Some False, bearerToken = None\<rparr>
                    (log @ [(seoUrl env params, [])]) of
               (Inl e, l) \<Rightarrow> (Inl e, l)
             | (Inr response, l) \<Rightarrow>
                 (Inr (response\<lparr>queriedObject := Some
                    \<lparr>search = Some
                       \<lparr>searchedValue = nullish (getProp params ''search'') (Str []),
                        type = ''post'',
                        subtype = nullish (getProp params ''postType'') (Str ''post''),
                        yoast_head = Str [],
                        yoast_head_json = []\<rparr>\<rparr>\<rparr>), l)))
   \<and> (SearchFetchStrategy_fetcher (AbstractFetchStrategy_fetcher env strat) env strat
         url params log = (Inl (NotFoundError m), log')
    \<longrightarrow> (\<exists>t. m = termNotFound (getProp params (paramSlugOf t)) (slug t))
        \<or> (\<exists>a. m = authorNotFound a))"
proof (intro conjI impI)
  assume h: "resolveFinalUrl env strat url params (log @ [(seoUrl env params, [])]) = (Inr finalUrl, log2)
      \<and> apiGet env (baseURL strat @ finalUrl) [] log2 = (Inr res, log3)
      \<and> json res = JArr []"
  have "PostsArchiveFetchStrategy_fetcher (AbstractFetchStrategy_fetcher env strat) env strat url params
          \<lparr>throwIfNotFound = Some False, bearerToken = None\<rparr> (log @ [(seoUrl env params, [])])
        = AbstractFetchStrategy_fetcher env strat finalUrl params
            \<lparr>throwIfNotFound = Some False, bearerToken = None\<rparr> log2"
    using h by (simp add: PostsArchiveFetchStrategy_fetcher_def await_def)
  also have "\<dots> = (Inr (toResponse params res), log3)"
    using h by (simp add: AbstractFetchStrategy_fetcher_def authHeaders_def await_def resolve_def)
  finally show "\<exists>r. SearchFetchStrategy_fetcher (AbstractFetchStrategy_fetcher env strat) env strat
                 url params log = (Inr r, log3)
              \<and> result r = JArr []"
    using h by (simp add: Search_fetcher_unfold Let_def toResponse_def)
next
  assume "fetch env log (addQueryArgs env (seoUrl env params) []) [] = Inl reason"
  then show "SearchFetchStrategy_fetcher base env strat url params log
          = (case PostsArchiveFetchStrategy_fetcher base env strat url params
                    \<lparr>throwIfNotFound = Some False, bearerToken = None\<rparr>
                    (log @ [(seoUrl env params, [])]) of
               (Inl e, l) \<Rightarrow> (Inl e, l)
             | (Inr response, l) \<Rightarrow>
                 (Inr (response\<lparr>queriedObject := Some
                    \<lparr>search = Some
                       \<lparr>searchedValue = nullish (getProp params ''search'') (Str []),
                        type = ''post'',
                        subtype = nullish (getProp params ''postType'') (Str ''post''),
                        yoast_head = Str [],
                        yoast_head_json = []\<rparr>\<rparr>\<rparr>), l))"
    by (simp add: Search_fetcher_unfold Let_def spread_def split: prod.splits sum.splits)
next
  assume "SearchFetchStrategy_fetcher (AbstractFetchStrategy_fetcher env strat) env strat
         url params log = (Inl (NotFoundError m), log')"
  then show "(\<exists>t. m = termNotFound (getProp params (paramSlugOf t)) (slug t))
        \<or> (\<exists>a. m = authorNotFound a)"
    by (rule search_not_found_origin)
qed

theorem search_zero_results_and_seo_failure_witness:
  "(resolveFinalUrl seoDownBackend postsStrategy ''/wp-json/wp/v2/posts?search=nothing''
        [(''search'', Str ''nothing'')]
        ([] @ [(seoUrl seoDownBackend [(''search'', Str ''nothing'')], [])])
      = (Inr ''/wp-json/wp/v2/posts?search=nothing'',
         [(''/wp-json/yoast/v1/get_head?url=/?s=nothing'', [])])
    \<and> apiGet seoDownBackend (baseURL postsStrategy @ ''/wp-json/wp/v2/posts?search=nothing'') []
        [(''/wp-json/yoast/v1/get_head?url=/?s=nothing'', [])]
      = (Inr \<lparr>headers = [], json = JArr []\<rparr>,
         [(''/wp-json/yoast/v1/get_head?url=/?s=nothing'', []),
          (''/wp-json/wp/v2/posts?search=nothing'', [])])
    \<and> fetch seoDownBackend []
        (addQueryArgs seoDownBackend (seoUrl seoDownBackend [(''search'', Str ''nothing'')]) []) []
      = Inl ''connection refused'')
   \<and> (\<exists>r. SearchFetchStrategy_fetcher (AbstractFetchStrategy_fetcher seoDownBackend postsStrategy)
             seoDownBackend postsStrategy ''/wp-json/wp/v2/posts?search=nothing''
             [(''search'', Str ''nothing'')] []
           = (Inr r, [(''/wp-json/yoast/v1/get_head?url=/?s=nothing'', []),
                      (''/wp-json/wp/v2/posts?search=nothing'', [])])
          \<and> result r = JArr [])
   \<and> SearchFetchStrategy_fetcher (AbstractFetchStrategy_fetcher seoDownBackend postsStrategy)
         seoDownBackend postsStrategy ''/wp-json/wp/v2/posts?search=nothing''
         [(''search'', Str ''nothing'')] []
       = (Inr (emptySearchResponse (Str ''nothing'')),
          [(''/wp-json/yoast/v1/get_head?url=/?s=nothing'', []),
           (''/wp-json/wp/v2/posts?search=nothing'', [])])
   \<and> SearchFetchStrategy_fetcher (AbstractFetchStrategy_fetcher seoDownBackend postsStrategy)
         seoDownBackend postsStrategy ''/wp-json/wp/v2/posts'' [(''category'', Str ''news'')] []
       = (Inl (NotFoundError (termNotFound (Str ''news'') ''category'')),
          [(''/wp-json/yoast/v1/get_head?url=/?s=undefined'', []),
           (''/wp-json/wp/v2/categories?slug=news'', [])])
   \<and> ((\<exists>t. termNotFound (Str ''news'') ''category''
              = termNotFound (getProp [(''category'', Str ''news'')] (paramSlugOf t)) (slug t))
        \<or> (\<exists>a. termNotFound (Str ''news'') ''category'' = authorNotFound a))"
proof -
  let ?params = "[(''search'', Str ''nothing'')]"
  let ?url = "''/wp-json/wp/v2/posts?search=nothing''"
  let ?log1 = "[(''/wp-json/yoast/v1/get_head?url=/?s=nothing'', [])]"
  let ?res = "\<lparr>headers = [], json = JArr []\<rparr>"
  let ?base = "AbstractFetchStrategy_fetcher seoDownBackend postsStrategy"
  have h1: "resolveFinalUrl seoDownBackend postsStrategy ?url ?params
        ([] @ [(seoUrl seoDownBackend ?params, [])]) = (Inr ?url, ?log1)"
    by (simp add: run_simps)
  have h2: "apiGet seoDownBackend (baseURL postsStrategy @ ?url) [] ?log1
      = (Inr ?res, ?log1 @ [(?url, [])])"
    by (simp add: run_simps)
  have h3: "json ?res = JArr []"
    by simp
  have h4: "fetch seoDownBackend []
        (addQueryArgs seoDownBackend (seoUrl seoDownBackend ?params) []) [] = Inl ''connection refused''"
    by (simp add: run_simps)
  note inst = search_zero_results_and_seo_failure
    [where env = seoDownBackend and strat = postsStrategy and url = ?url and params = ?params
       and log = "[]" and finalUrl = ?url and ?log2.0 = ?log1 and res = ?res
       and ?log3.0 = "?log1 @ [(?url, [])]" and reason = "''connection refused''"
       and base = ?base]
  from inst h1 h2 h3
  have a: "\<exists>r. SearchFetchStrategy_fetcher ?base seoDownBackend postsStrategy ?url ?params []
           = (Inr r, ?log1 @ [(?url, [])]) \<and> result r = JArr []"
    by blast
  have archive: "PostsArchiveFetchStrategy_fetcher ?base seoDownBackend postsStrategy ?url ?params
          \<lparr>throwIfNotFound = Some False, bearerToken = None\<rparr>
          ([] @ [(seoUrl seoDownBackend ?params, [])])
        = (Inr \<lparr>result = JArr [], pageInfo = \<lparr>page = 1, totalPages = 1, totalItems = 1\<rparr>,
                 queriedObject = None\<rparr>, ?log1 @ [(?url, [])])"
    by (simp add: run_simps)
  from inst h4
  have "SearchFetchStrategy_fetcher ?base seoDownBackend postsStrategy ?url ?params []
      = (case PostsArchiveFetchStrategy_fetcher ?base seoDownBackend postsStrategy ?url ?params
                \<lparr>throwIfNotFound = Some False, bearerToken = None\<rparr>
                ([] @ [(seoUrl seoDownBackend ?params, [])]) of
           (Inl e, l) \<Rightarrow> (Inl e, l)
         | (Inr response, l) \<Rightarrow>
             (Inr (response\<lparr>queriedObject := Some
                \<lparr>search = Some
                   \<lparr>searchedValue = nullish (getProp ?params ''search'') (Str []),
                    type = ''post'',
                    subtype = nullish (getProp ?params ''postType'') (Str ''post''),
                    yoast_head = Str [],
                    yoast_head_json = []\<rparr>\<rparr>\<rparr>), l))"
    by blast
  then have b: "SearchFetchStrategy_fetcher ?base seoDownBackend postsStrategy ?url ?params []
       = (Inr (emptySearchResponse (Str ''nothing'')), ?log1 @ [(?url, [])])"
    unfolding archive by (simp add: emptySearchResponse_def getProp_def)
  have c: "SearchFetchStrategy_fetcher ?base seoDownBackend postsStrategy ''/wp-json/wp/v2/posts''
         [(''category'', Str ''news'')] []
       = (Inl (NotFoundError (termNotFound (Str ''news'') ''category'')),
          [(''/wp-json/yoast/v1/get_head?url=/?s=undefined'', []),
           (''/wp-json/wp/v2/categories?slug=news'', [])])"
    by (simp add: run_simps termNotFound_def)
  from search_zero_results_and_seo_failure
    [where env = seoDownBackend and strat = postsStrategy and url = "''/wp-json/wp/v2/posts''"
       and params = "[(''category'', Str ''news'')]" and log = "[]"
       and m = "termNotFound (Str ''news'') ''category''"
       and log' = "[(''/wp-json/yoast/v1/get_head?url=/?s=undefined'', []),
           (''/wp-json/wp/v2/categories?slug=news'', [])]"] c
  have d: "(\<exists>t. termNotFound (Str ''news'') ''category''
              = termNotFound (getProp [(''category'', Str ''news'')] (paramSlugOf t)) (slug t))
        \<or> (\<exists>a. termNotFound (Str ''news'') ''category'' = authorNotFound a)"
    by blast
  from a b c d h1 h2 h4 show ?thesis
    by simp
qed

subsection \<open>Posts archive: a resolved category\<close>

text \<open>The request \<^verbatim>\<open>{category: 'news'}\<close> against a backend that knows the category:
  the lookup call comes first, and the posts are fetched with the id it returned.\<close>

lemma posts_archive_category_example:
  "PostsArchiveFetchStrategy_fetcher (AbstractFetchStrategy_fetcher newsBackend postsStrategy)
     newsBackend postsStrategy ''/wp-json/wp/v2/posts'' [(''category'', Str ''news'')] noOptions []
   = (Inr \<lparr>result = JArr [[(''id'', Num 1)]],
            pageInfo = \<lparr>page = 1, totalPages = 1, totalItems = 1\<rparr>,
            queriedObject = None\<rparr>,
      [(''/wp-json/wp/v2/categories?slug=news'', []),
       (''/wp-json/wp/v2/posts?categories=7'', [])])"
  by (simp add: run_simps newsBackend_def noOptions_def showInt_def digitsOf.simps)

subsection \<open>Response filter\<close>

lemma omitKeys_idem: "omitKeys ks (omitKeys ks ob) = omitKeys ks ob"
  by (simp add: omitKeys_def)

lemma keepKeys_idem: "keepKeys ks (keepKeys ks ob) = keepKeys ks ob"
  by (simp add: keepKeys_def)

lemma removeFields_idem: "removeFields fs (removeFields fs d) = removeFields fs d"
  by (cases d) (simp_all add: removeFields_def omitKeys_idem)

lemma acceptFields_idem: "acceptFields fs (acceptFields fs d) = acceptFields fs d"
  by (cases d) (simp_all add: acceptFields_def keepKeys_idem)

lemma Abstract_filterData_idem:
  "AbstractFetchStrategy_filterData (AbstractFetchStrategy_filterData x opts) opts
     = AbstractFetchStrategy_filterData x opts"
  by (cases "methodName opts")
     (simp_all add: AbstractFetchStrategy_filterData_def removeFields_idem acceptFields_idem)

text \<open>
  Claim C8. Filtering is idempotent: filtering an already filtered envelope with the same
  options gives the same envelope, field for field, whether the result is a single item
  or an array, for \<^verbatim>\<open>TaxonomyTermsStrategy.filterData\<close> with or without options and
  for the base filter it defers to. Without options only \<^verbatim>\<open>_links\<close> is removed.
\<close>

theorem filterData_idempotent:
  "TaxonomyTermsStrategy_filterData (TaxonomyTermsStrategy_filterData x filterOptions) filterOptions
     = TaxonomyTermsStrategy_filterData x filterOptions
   \<and> AbstractFetchStrategy_filterData (AbstractFetchStrategy_filterData x opts) opts
     = AbstractFetchStrategy_filterData x opts
   \<and> result (TaxonomyTermsStrategy_filterData x None) = removeFields [''_links''] (result x)"
  by (cases filterOptions)
     (simp_all add: TaxonomyTermsStrategy_filterData_def Abstract_filterData_idem removeFields_idem)

subsection \<open>Single post: parameters from the URL\<close>

lemma splitOn_append:
  "sep \<notin> set s \<Longrightarrow>
   splitOn sep (s @ r) = (s @ hd (splitOn sep r)) # tl (splitOn sep r)"
proof (induction s)
  case Nil
  have "splitOn sep r \<noteq> []" by (induction r) (auto split: list.splits)
  then show ?case by simp
next
  case (Cons c s)
  then show ?case by auto
qed

lemma splitOn_join:
  "\<forall>s \<in> set segs. sep \<notin> set s \<Longrightarrow>
   splitOn sep (concat (map ((#) sep) segs)) = [] # segs"
proof (induction segs)
  case Nil
  show ?case by simp
next
  case (Cons s segs)
  then have "splitOn sep (s @ concat (map ((#) sep) segs)) = s # segs"
    by (simp add: splitOn_append)
  then show ?case by simp
qed

lemma pathSegments_join:
  assumes "\<forall>s \<in> set segs. s \<noteq> [] \<and> CHR ''/'' \<notin> set s"
  shows "pathSegments (concat (map ((#) CHR ''/'') segs)) = segs"
proof -
  have "splitOn CHR ''/'' (concat (map ((#) CHR ''/'') segs)) = [] # segs"
    using assms by (intro splitOn_join) blast
  moreover have "filter (\<lambda>s. s \<noteq> []) segs = segs"
    using assms by (simp add: filter_id_conv)
  ultimately show ?thesis by (simp add: pathSegments_def)
qed

lemma postMatchers_segments:
  "map (\<lambda>r. (priority r, patternSegments (pattern r))) postMatchers =
    [(10, [Capture ''slug'']),
     (20, [Capture ''year'', Capture ''slug'']),
     (20, [Capture ''year'', Capture ''month'', Capture ''slug'']),
     (20, [Capture ''year'', Capture ''month'', Capture ''day'', Capture ''slug'']),
     (30, [Capture ''parent'', Capture ''slug'']),
     (30, [Capture ''year'', Capture ''parent'', Capture ''slug'']),
     (30, [Capture ''year'', Capture ''month'', Capture ''parent'', Capture ''slug'']),
     (30, [Capture ''year'', Capture ''month'', Capture ''day'', Capture ''parent'', Capture ''slug''])]"
  by (simp add: postMatchers_def patternSegments_def pathSegments_def)

lemma matches_segMatches:
  "matches env postMatchers p = segMatches (decodeURIComponent env) (pathSegments p)"
  unfolding matches_def segMatches_def map_map
  by (rule arg_cong [where f = concat]) (simp add: comp_def)

lemma slug_of_segments:
  assumes "segs \<noteq> []" and "length segs \<le> 5"
  shows "keepKeys [''slug'']
           (case segMatches decode segs of
              [] \<Rightarrow> []
            | m # ms \<Rightarrow> snd (fold (\<lambda>x best. if fst best < fst x then x else best) ms m))
         = [(''slug'', Str (decode (last segs)))]"
proof -
  consider a where "segs = [a]" | a b where "segs = [a, b]" | a b c where "segs = [a, b, c]"
    | a b c d where "segs = [a, b, c, d]" | a b c d e where "segs = [a, b, c, d, e]"
    using assms
    by (cases segs; simp; rename_tac x xs; case_tac xs; simp; rename_tac y ys; case_tac ys; simp;
        rename_tac z zs; case_tac zs; simp; rename_tac w ws; case_tac ws; simp)
  then show ?thesis
    by cases (simp_all add: segMatches_def postMatchers_segments keepKeys_def)
qed

text \<open>
  Claim C6. A path of one to five segments, which covers \<^verbatim>\<open>/slug\<close>,
  \<^verbatim>\<open>/yyyy/slug\<close>, \<^verbatim>\<open>/yyyy/mm/slug\<close>, \<^verbatim>\<open>/yyyy/mm/dd/slug\<close>,
  \<^verbatim>\<open>/parent/slug\<close> and the date prefixes before \<^verbatim>\<open>/parent/slug\<close>, is parsed to
  exactly \<^verbatim>\<open>{ slug }\<close>, the slug being the final path segment, URL-decoded as every
  capture is, and so the segment itself when it has nothing to decode; the date and
  parent segments leave no parameter.
\<close>

theorem single_post_params_from_url:
  assumes "segs \<noteq> []" and "length segs \<le> 5"
    and "\<forall>s \<in> set segs. s \<noteq> [] \<and> CHR ''/'' \<notin> set s"
  shows "SinglePostFetchStrategy_getParamsFromURL env (concat (map ((#) CHR ''/'') segs))
           = [(''slug'', Str (decodeURIComponent env (last segs)))]
       \<and> (decodeURIComponent env (last segs) = last segs \<longrightarrow>
            SinglePostFetchStrategy_getParamsFromURL env (concat (map ((#) CHR ''/'') segs))
              = [(''slug'', Str (last segs))])"
proof -
  have "SinglePostFetchStrategy_getParamsFromURL env (concat (map ((#) CHR ''/'') segs))
           = [(''slug'', Str (decodeURIComponent env (last segs)))]"
    unfolding SinglePostFetchStrategy_getParamsFromURL_def parsePath_def matches_segMatches
      pathSegments_join [OF assms(3)]
    by (rule slug_of_segments [OF assms(1,2)])
  then show ?thesis by simp
qed

theorem single_post_params_from_url_witness:
  "[''2021'', ''10'', ''30'', ''parent'', ''post-name''] \<noteq> []
   \<and> length [''2021'', ''10'', ''30'', ''parent'', ''post-name''] \<le> 5
   \<and> list_all (\<lambda>s. s \<noteq> [] \<and> CHR ''/'' \<notin> set s)
         [''2021'', ''10'', ''30'', ''parent'', ''post-name'']
   \<and> SinglePostFetchStrategy_getParamsFromURL emptyBackend ''/2021/10/30/parent/post-name''
       = [(''slug'', Str ''post-name'')]"
  using single_post_params_from_url
    [of "[''2021'', ''10'', ''30'', ''parent'', ''post-name'']" emptyBackend]
  by (simp add: emptyBackend_def)

text \<open>The paths of the test \<^verbatim>\<open>parses the url properly\<close>.\<close>

lemma single_post_test_paths:
  "SinglePostFetchStrategy_getParamsFromURL emptyBackend ''/post-name'' = [(''slug'', Str ''post-name'')]"
  "SinglePostFetchStrategy_getParamsFromURL emptyBackend ''/2021/post-name'' = [(''slug'', Str ''post-name'')]"
  "SinglePostFetchStrategy_getParamsFromURL emptyBackend ''/2021/10/post-name'' = [(''slug'', Str ''post-name'')]"
  "SinglePostFetchStrategy_getParamsFromURL emptyBackend ''/2021/10/30/post-name'' = [(''slug'', Str ''post-name'')]"
  "SinglePostFetchStrategy_getParamsFromURL emptyBackend ''/parent/post-name'' = [(''slug'', Str ''post-name'')]"
  by (simp_all add: SinglePostFetchStrategy_getParamsFromURL_def parsePath_def matches_def
      postMatchers_def patternSegments_def pathSegments_def keepKeys_def emptyBackend_def)

subsection \<open>Single post: revisions\<close>

lemma attempt_unfold:
  "attempt env strat url params options log
     = (case fetch env log (addQueryArgs env (baseURL strat @ url) []) (authHeaders options) of
          Inl reason \<Rightarrow> Inl (TransportError reason)
        | Inr res \<Rightarrow> Inr (selected env strat (toResponse params res)),
        log @ [(baseURL strat @ url, authHeaders options)])"
  by (simp add: attempt_def AbstractFetchStrategy_fetcher_def apiGet_def await_def resolve_def
      authHeaders_def split: sum.splits)

lemma attempt_log:
  "snd (attempt env strat url params options log) = log @ [(baseURL strat @ url, authHeaders options)]"
  by (simp add: attempt_unfold)

lemmas single_simps =
  SinglePostFetchStrategy_buildEndpointURL_def endpointFor_def activePostType_def
  getCustomPostType_def getCustomTaxonomySlugs_def testBackend_def emptyBackend_def
  exampleAddQueryArgs_def getProp_def spread_def omitKeys_def book_def pagePostType_def post_def
  post_tag_def category_def postsStrategy_def startsWith_def authHeaders_def withAuthToken_def
  noOptions_def candidateCall_def candidateUrl_def showInt_def digitsOf.simps
  postTypeCandidates_def

text \<open>
  Claim C5. A single-post fetch with \<^verbatim>\<open>id\<close>, \<^verbatim>\<open>revision: true\<close> and an
  \<^verbatim>\<open>authToken\<close> \<open>t\<close> (the parameters \<^verbatim>\<open>{id: 10, revision: true, authToken: 't'}\<close>
  among them), whose first call is answered, makes exactly two network calls, in this
  order: \<^verbatim>\<open><endpoint>/<id>/revisions?per_page=1\<close>, then \<^verbatim>\<open><endpoint>/<id>\<close>, both with
  the header \<^verbatim>\<open>Authorization: Bearer t\<close>.
\<close>

theorem revision_fetch_two_calls:
  assumes ep: "endpointFor env params = Inr ep"
    and ident: "truthy (getProp params ''id'')"
    and revision: "truthy (getProp params ''revision'')"
    and token: "getProp params ''authToken'' = Str t" "t \<noteq> []"
    and single: "tl (postTypeCandidates (getProp params ''postType'')) = []"
    and answered: "fetch env log
        (addQueryArgs env (baseURL strat @ ep @ ''/'' @ js_toString (getProp params ''id'')
                             @ ''/revisions?per_page=1'') [])
        [(''Authorization'', ''Bearer '' @ t)] = Inr revisions"
  shows "snd (SinglePostFetchStrategy_fetchHookData env strat params options log)
       = log @ [(baseURL strat @ ep @ ''/'' @ js_toString (getProp params ''id'')
                   @ ''/revisions?per_page=1'', [(''Authorization'', ''Bearer '' @ t)]),
                (baseURL strat @ ep @ ''/'' @ js_toString (getProp params ''id''),
                   [(''Authorization'', ''Bearer '' @ t)])]"
proof -
  let ?url = "ep @ ''/'' @ js_toString (getProp params ''id'')"
  let ?hdr = "[(''Authorization'', ''Bearer '' @ t)]"
  let ?opts = "withAuthToken params options"
  let ?log1 = "log @ [(baseURL strat @ ?url @ ''/revisions?per_page=1'', ?hdr)]"
  have build: "SinglePostFetchStrategy_buildEndpointURL env params = Inr ?url"
    by (simp add: SinglePostFetchStrategy_buildEndpointURL_def ep ident)
  have hdr: "authHeaders ?opts = ?hdr"
    by (simp add: withAuthToken_def token authHeaders_def)
  have rev: "apiGet env (baseURL strat @ ?url @ ''/revisions?per_page=1'') ?hdr log
               = (Inr revisions, ?log1)"
    using answered by (simp add: apiGet_def)
  have "SinglePostFetchStrategy_fetchHookData env strat params options log
      = await (attempt env strat ?url params ?opts)
              (\<lambda>found. case found of
                   Some res \<Rightarrow> resolve res
                 | None \<Rightarrow> reject (NotFoundError (noData ?url))) ?log1"
    using rev
    by (simp add: SinglePostFetchStrategy_fetchHookData_def build SinglePostFetchStrategy_fetcher_def
        Let_def ident revision hdr single await_def resolve_def reject_def
        split: option.splits prod.splits sum.splits)
  then show ?thesis
    by (simp add: await_def attempt_unfold hdr resolve_def reject_def
        split: sum.splits option.splits)
qed

theorem revision_fetch_two_calls_witness:
  "endpointFor testBackend [(''id'', Num 10), (''revision'', Bool True), (''authToken'', Str ''t'')]
     = Inr ''/wp-json/wp/v2/posts''
   \<and> truthy (getProp [(''id'', Num 10), (''revision'', Bool True), (''authToken'', Str ''t'')] ''id'')
   \<and> truthy (getProp [(''id'', Num 10), (''revision'', Bool True), (''authToken'', Str ''t'')] ''revision'')
   \<and> getProp [(''id'', Num 10), (''revision'', Bool True), (''authToken'', Str ''t'')] ''authToken''
       = Str ''t''
   \<and> fetch testBackend [] (addQueryArgs testBackend ''/wp-json/wp/v2/posts/10/revisions?per_page=1'' [])
         [(''Authorization'', ''Bearer t'')]
       = Inr \<lparr>headers = [], json = JArr [[(''id'', Num 1), (''link'', Str ''/2021/10/post-name'')]]\<rparr>
   \<and> snd (SinglePostFetchStrategy_fetchHookData testBackend postsStrategy
            [(''id'', Num 10), (''revision'', Bool True), (''authToken'', Str ''t'')] noOptions [])
       = [(''/wp-json/wp/v2/posts/10/revisions?per_page=1'', [(''Authorization'', ''Bearer t'')]),
          (''/wp-json/wp/v2/posts/10'', [(''Authorization'', ''Bearer t'')])]"
proof -
  let ?params = "[(''id'', Num 10), (''revision'', Bool True), (''authToken'', Str ''t'')]"
  let ?res = "\<lparr>headers = [], json = JArr [[(''id'', Num 1), (''link'', Str ''/2021/10/post-name'')]]\<rparr>"
  have h1: "endpointFor testBackend ?params = Inr ''/wp-json/wp/v2/posts''"
    by (simp add: single_simps)
  have h2: "truthy (getProp ?params ''id'')" by (simp add: getProp_def)
  have h3: "truthy (getProp ?params ''revision'')" by (simp add: getProp_def)
  have h4: "getProp ?params ''authToken'' = Str ''t''" by (simp add: getProp_def)
  have h5: "''t'' \<noteq> []" by simp
  have h6: "tl (postTypeCandidates (getProp ?params ''postType'')) = []"
    by (simp add: getProp_def postTypeCandidates_def)
  have ten: "js_toString (getProp ?params ''id'') = ''10''"
    by (simp add: getProp_def showInt_def digitsOf.simps)
  have h7: "fetch testBackend []
        (addQueryArgs testBackend (baseURL postsStrategy @ ''/wp-json/wp/v2/posts'' @ ''/''
            @ js_toString (getProp ?params ''id'') @ ''/revisions?per_page=1'') [])
        [(''Authorization'', ''Bearer '' @ ''t'')] = Inr ?res"
    unfolding ten by (simp add: single_simps)
  have h7': "fetch testBackend [] (addQueryArgs testBackend ''/wp-json/wp/v2/posts/10/revisions?per_page=1'' [])
         [(''Authorization'', ''Bearer t'')] = Inr ?res"
    by (simp add: single_simps)
  from revision_fetch_two_calls [OF h1 h2 h3 h4 h5 h6 h7, of noOptions]
  have "snd (SinglePostFetchStrategy_fetchHookData testBackend postsStrategy ?params noOptions [])
       = [(''/wp-json/wp/v2/posts/10/revisions?per_page=1'', [(''Authorization'', ''Bearer t'')]),
          (''/wp-json/wp/v2/posts/10'', [(''Authorization'', ''Bearer t'')])]"
    unfolding ten by (simp add: postsStrategy_def)
  with h1 h2 h3 h4 h7' show ?thesis by blast
qed

subsection \<open>Single post: several post types\<close>

lemma map_of_spread1: "map_of (spread params [(k, v)]) = (map_of params)(k \<mapsto> v)"
  by (simp add: spread_def update_conv')

lemma getProp_spread_other: "k' \<noteq> k \<Longrightarrow> getProp (spread params [(k, v)]) k' = getProp params k'"
  by (simp add: getProp_def map_of_spread1)

lemma getProp_spread_same: "getProp (spread params [(k, v)]) k = v"
  by (simp add: getProp_def map_of_spread1)

lemma omitKeys_update: "k \<in> set ks \<Longrightarrow> omitKeys ks (AList.update k v ob) = omitKeys ks ob"
  by (induction ob) (auto simp: omitKeys_def)

lemma omitKeys_spread: "k \<in> set ks \<Longrightarrow> omitKeys ks (spread params [(k, v)]) = omitKeys ks params"
  by (simp add: spread_def omitKeys_update)

lemma toResponse_spread:
  "toResponse (spread params [(''postType'', v)]) res = toResponse params res"
  by (simp add: toResponse_def getProp_spread_other)

lemma attempt_spread:
  "attempt env strat url (spread params [(''postType'', v)]) options
     = attempt env strat url params options"
  by (rule ext) (simp add: attempt_unfold toResponse_spread split: sum.splits)

lemma build_spread:
  assumes "getProp params ''postType'' = Arr (Str s # ps)"
  shows "SinglePostFetchStrategy_buildEndpointURL env (spread params [(''postType'', Str s)])
           = SinglePostFetchStrategy_buildEndpointURL env params"
  by (simp add: SinglePostFetchStrategy_buildEndpointURL_def endpointFor_def assms
      getProp_spread_same getProp_spread_other omitKeys_spread activePostType_def
      split: sum.splits option.splits)

lemma selected_None: "selected env strat r = None \<longleftrightarrow> result r = JArr []"
  by (auto simp: selected_def split: json.splits list.splits)

lemma attemptCandidate_unfold:
  "attemptCandidate env strat params options p log
     = (case SinglePostFetchStrategy_buildEndpointURL env (spread params [(''postType'', p)]) of
          Inl e \<Rightarrow> (Inl e, log)
        | Inr url \<Rightarrow>
            (case fetch env log (addQueryArgs env (baseURL strat @ url) []) (authHeaders options) of
               Inl reason \<Rightarrow> Inl (TransportError reason)
             | Inr res \<Rightarrow> Inr (selected env strat (toResponse params res)),
             log @ [(baseURL strat @ url, authHeaders options)]))"
  by (simp add: attemptCandidate_def attempt_unfold toResponse_spread reject_def split: sum.splits)

lemma fallback_append:
  "fallback env strat params options (pre @ rest)
     = await (fallback env strat params options pre)
         (\<lambda>found. case found of
              Some res \<Rightarrow> resolve (Some res)
            | None \<Rightarrow> fallback env strat params options rest)"
proof (induction pre)
  case Nil
  show ?case by (simp add: await_def resolve_def)
next
  case (Cons p pre)
  show ?case
    by (rule ext)
       (simp add: Cons.IH await_def resolve_def split: prod.splits sum.splits option.splits)
qed

lemma fallback_empties:
  "candidatesEmpty env strat params options pts log \<Longrightarrow>
   fallback env strat params options pts log
     = (Inr None, log @ map (candidateCall env strat params options) pts)"
proof (induction pts arbitrary: log)
  case Nil
  show ?case by (simp add: resolve_def)
next
  case (Cons p pts)
  from Cons.prems obtain url res where
    b: "SinglePostFetchStrategy_buildEndpointURL env (spread params [(''postType'', p)]) = Inr url"
    and f: "fetch env log (addQueryArgs env (baseURL strat @ url) []) (authHeaders options) = Inr res"
    and j: "json res = JArr []"
    and r: "candidatesEmpty env strat params options pts (log @ [(baseURL strat @ url, authHeaders options)])"
    by (auto split: sum.splits)
  have a: "attemptCandidate env strat params options p log
             = (Inr None, log @ [(baseURL strat @ url, authHeaders options)])"
    by (simp add: attemptCandidate_unfold b f selected_None toResponse_def j)
  show ?case
    by (simp add: await_def a Cons.IH [OF r] candidateCall_def candidateUrl_def b)
qed

lemma fallback_None:
  "fallback env strat params options pts log = (Inr None, log') \<Longrightarrow>
   candidatesEmpty env strat params options pts log
   \<and> log' = log @ map (candidateCall env strat params options) pts"
proof (induction pts arbitrary: log)
  case Nil
  then show ?case by (simp add: resolve_def)
next
  case (Cons p pts)
  from Cons.prems obtain url res where
    b: "SinglePostFetchStrategy_buildEndpointURL env (spread params [(''postType'', p)]) = Inr url"
    and f: "fetch env log (addQueryArgs env (baseURL strat @ url) []) (authHeaders options) = Inr res"
    and j: "json res = JArr []"
    and r: "fallback env strat params options pts (log @ [(baseURL strat @ url, authHeaders options)])
              = (Inr None, log')"
    by (auto simp: await_def attemptCandidate_unfold resolve_def selected_None toResponse_def
        split: sum.splits option.splits prod.splits)
  from Cons.IH [OF r] show ?case
    by (simp add: b f j candidateCall_def candidateUrl_def)
qed

lemma build_error: "SinglePostFetchStrategy_buildEndpointURL env params = Inl e \<Longrightarrow>
   e = ConfigError unknownPostType"
  by (auto simp: SinglePostFetchStrategy_buildEndpointURL_def endpointFor_def Let_def
      split: sum.splits if_splits option.splits)

lemma fallback_error:
  "fallback env strat params options pts log = (Inl e, log') \<Longrightarrow> e \<noteq> NotFoundError m"
proof (induction pts arbitrary: log)
  case Nil
  then show ?case by (simp add: resolve_def)
next
  case (Cons p pts)
  then show ?case
    by (auto simp: await_def attemptCandidate_unfold resolve_def
        split: sum.splits option.splits prod.splits dest: build_error)
qed


lemma fetchHookData_fallback:
  assumes pt: "getProp params ''postType'' = Arr (Str first # others)"
    and norev: "\<not> (truthy (getProp params ''revision'') \<and> truthy (getProp params ''id''))"
  shows "SinglePostFetchStrategy_fetchHookData env strat params options log
       = await (fallback env strat params (withAuthToken params options) (Str first # others))
           (\<lambda>found. case found of
                Some res \<Rightarrow> resolve res
              | None \<Rightarrow> reject (NotFoundError (noData (candidateUrl env params (Str first))))) log"
proof (cases "SinglePostFetchStrategy_buildEndpointURL env params")
  case (Inl e)
  then show ?thesis
    by (simp add: SinglePostFetchStrategy_fetchHookData_def attemptCandidate_def
        build_spread [OF pt] await_def reject_def)
next
  case (Inr url)
  have c: "candidateUrl env params (Str first) = url"
    by (simp add: candidateUrl_def build_spread [OF pt] Inr)
  have a: "attemptCandidate env strat params (withAuthToken params options) (Str first)
         = attempt env strat url params (withAuthToken params options)"
    by (simp add: attemptCandidate_def build_spread [OF pt] Inr attempt_spread)
  have t: "tl (postTypeCandidates (getProp params ''postType'')) = others"
    by (simp add: pt postTypeCandidates_def)
  have nr: "(truthy (getProp params ''revision'') \<and> truthy (getProp params ''id'')) = False"
    using norev by simp
  have f: "SinglePostFetchStrategy_fetcher env strat url params options
         = await (attempt env strat url params (withAuthToken params options))
             (\<lambda>found. case found of
                  Some res \<Rightarrow> resolve res
                | None \<Rightarrow>
                    await (fallback env strat params (withAuthToken params options) others)
                      (\<lambda>found. case found of
                           Some res \<Rightarrow> resolve res
                         | None \<Rightarrow> reject (NotFoundError (noData url))))"
    unfolding SinglePostFetchStrategy_fetcher_def Let_def t nr by simp
  show ?thesis
    unfolding SinglePostFetchStrategy_fetchHookData_def Inr sum.case f fallback.simps a c
    by (simp add: await_def resolve_def split: prod.splits sum.splits option.splits)
qed

lemma candidateUrl_registered:
  assumes "s \<noteq> []" and "find (\<lambda>p. slug p = s) (customPostTypes env) = Some reg"
    and "\<not> truthy (getProp params ''id'')"
  shows "candidateUrl env params (Str s)
       = addQueryArgs env (endpoint reg)
           (omitKeys ([''category'', ''tag'', ''postType''] @ getCustomTaxonomySlugs env) params)"
  using assms
  by (simp add: candidateUrl_def SinglePostFetchStrategy_buildEndpointURL_def endpointFor_def
      getProp_spread_same getProp_spread_other omitKeys_spread activePostType_def
      getCustomPostType_def)

text \<open>
  Claim C1. Let \<^verbatim>\<open>params.postType\<close> be an array of post types and no revision be
  asked for. The candidates are fetched in array order, each at the URL built for it
  (for a registered post type: its endpoint followed by the serialized parameters). If
  the candidates before one all returned an empty list and this one returns items, the
  fetch resolves to the item selected from its answer and the log holds exactly the
  calls for the candidates up to it, in order: the later candidates are not fetched. If
  all candidates returned an empty list, the fetch rejects with a not-found error after
  one call per candidate; and it rejects with a not-found error only then.
\<close>

theorem multi_postType_fallback:
  assumes pt: "getProp params ''postType'' = Arr (Str first # others)"
    and norev: "\<not> (truthy (getProp params ''revision'') \<and> truthy (getProp params ''id''))"
  shows
   "(\<forall>pre p rest url res.
        Str first # others = pre @ p # rest
        \<and> candidatesEmpty env strat params (withAuthToken params options) pre log
        \<and> SinglePostFetchStrategy_buildEndpointURL env (spread params [(''postType'', p)]) = Inr url
        \<and> fetch env (log @ map (candidateCall env strat params (withAuthToken params options)) pre)
            (addQueryArgs env (baseURL strat @ url) [])
            (authHeaders (withAuthToken params options)) = Inr res
        \<and> json res \<noteq> JArr []
       \<longrightarrow> (\<exists>r. selected env strat (toResponse params res) = Some r
              \<and> SinglePostFetchStrategy_fetchHookData env strat params options log
                  = (Inr r, log @ map (candidateCall env strat params (withAuthToken params options))
                                    (pre @ [p]))))
    \<and> (candidatesEmpty env strat params (withAuthToken params options) (Str first # others) log
       \<longrightarrow> SinglePostFetchStrategy_fetchHookData env strat params options log
            = (Inl (NotFoundError (noData (candidateUrl env params (Str first)))),
               log @ map (candidateCall env strat params (withAuthToken params options))
                       (Str first # others)))
    \<and> (\<forall>m log'.
        SinglePostFetchStrategy_fetchHookData env strat params options log
          = (Inl (NotFoundError m), log')
       \<longrightarrow> candidatesEmpty env strat params (withAuthToken params options) (Str first # others) log
           \<and> log' = log @ map (candidateCall env strat params (withAuthToken params options))
                             (Str first # others))
    \<and> (\<forall>s reg.
        s \<noteq> [] \<and> find (\<lambda>p. slug p = s) (customPostTypes env) = Some reg
        \<and> \<not> truthy (getProp params ''id'')
       \<longrightarrow> candidateUrl env params (Str s)
            = addQueryArgs env (endpoint reg)
                (omitKeys ([''category'', ''tag'', ''postType''] @ getCustomTaxonomySlugs env) params))"
proof -
  let ?opts = "withAuthToken params options"
  let ?P = "Str first # others"
  let ?call = "candidateCall env strat params ?opts"
  let ?finish = "\<lambda>found. case found of
                Some res \<Rightarrow> resolve res
              | None \<Rightarrow> reject (NotFoundError (noData (candidateUrl env params (Str first))))"
  note run = fetchHookData_fallback [OF pt norev, of env strat options]
  have hit: "\<exists>r. selected env strat (toResponse params res) = Some r
              \<and> SinglePostFetchStrategy_fetchHookData env strat params options log
                  = (Inr r, log @ map ?call (pre @ [p]))"
    if split: "?P = pre @ p # rest"
      and empties: "candidatesEmpty env strat params ?opts pre log"
      and build: "SinglePostFetchStrategy_buildEndpointURL env (spread params [(''postType'', p)]) = Inr url"
      and answer: "fetch env (log @ map ?call pre) (addQueryArgs env (baseURL strat @ url) [])
            (authHeaders ?opts) = Inr res"
      and nonempty: "json res \<noteq> JArr []"
    for pre p rest url res
  proof -
    from nonempty obtain r where r: "selected env strat (toResponse params res) = Some r"
      using selected_None [of env strat "toResponse params res"]
      by (auto simp: toResponse_def)
    have a: "attemptCandidate env strat params ?opts p (log @ map ?call pre)
           = (Inr (Some r), log @ map ?call pre @ [?call p])"
      by (simp add: attemptCandidate_unfold build answer r candidateCall_def candidateUrl_def)
    have "fallback env strat params ?opts ?P log = (Inr (Some r), log @ map ?call pre @ [?call p])"
      unfolding split fallback_append
      by (simp add: await_def fallback_empties [OF empties] a resolve_def)
    then have "SinglePostFetchStrategy_fetchHookData env strat params options log
                  = (Inr r, log @ map ?call (pre @ [p]))"
      unfolding run by (simp add: await_def resolve_def)
    with r show ?thesis by blast
  qed
  have exhausted: "SinglePostFetchStrategy_fetchHookData env strat params options log
            = (Inl (NotFoundError (noData (candidateUrl env params (Str first)))),
               log @ map ?call ?P)"
    if "candidatesEmpty env strat params ?opts ?P log"
    unfolding run by (simp only: await_def fallback_empties [OF that]) (simp add: reject_def)
  have only_then: "candidatesEmpty env strat params ?opts ?P log \<and> log' = log @ map ?call ?P"
    if nf: "SinglePostFetchStrategy_fetchHookData env strat params options log
          = (Inl (NotFoundError m), log')"
    for m log'
  proof (cases "fallback env strat params ?opts ?P log")
    case (Pair outcome l)
    show ?thesis
    proof (cases outcome)
      case (Inl e)
      with Pair nf have "e = NotFoundError m"
        unfolding run by (simp add: await_def)
      with fallback_error [of env strat params ?opts ?P log e l m] Pair Inl show ?thesis
        by simp
    next
      case (Inr found)
      with Pair nf have "found = None" and "l = log'"
        unfolding run by (auto simp: await_def resolve_def reject_def split: option.splits)
      with Pair Inr fallback_None [of env strat params ?opts ?P log log'] show ?thesis
        by simp
    qed
  qed
  show ?thesis
    using hit exhausted only_then candidateUrl_registered [of _ env _ params]
    by blast
qed

theorem multi_postType_fallback_witness:
  "getProp [(''slug'', Str ''post-name''), (''postType'', Arr [Str ''book'', Str ''post''])] ''postType''
     = Arr (Str ''book'' # [Str ''post''])
   \<and> candidatesEmpty testBackend postsStrategy
         [(''slug'', Str ''post-name''), (''postType'', Arr [Str ''book'', Str ''post''])]
         noOptions [Str ''book''] []
   \<and> fetch testBackend [(''/wp-json/wp/v2/book?slug=post-name'', [])]
         (addQueryArgs testBackend ''/wp-json/wp/v2/posts?slug=post-name'' []) []
       = Inr \<lparr>headers = [], json = JArr [[(''id'', Num 1), (''link'', Str ''/2021/10/post-name'')]]\<rparr>
   \<and> SinglePostFetchStrategy_fetchHookData testBackend postsStrategy
         [(''slug'', Str ''post-name''), (''postType'', Arr [Str ''book'', Str ''post''])] noOptions []
       = (Inr \<lparr>result = JObj [(''id'', Num 1), (''link'', Str ''/2021/10/post-name'')],
                pageInfo = singlePage, queriedObject = None\<rparr>,
          [(''/wp-json/wp/v2/book?slug=post-name'', []),
           (''/wp-json/wp/v2/posts?slug=post-name'', [])])"
proof -
  let ?params = "[(''slug'', Str ''post-name''), (''postType'', Arr [Str ''book'', Str ''post''])]"
  let ?match = "[(''id'', Num 1), (''link'', Str ''/2021/10/post-name'')]"
  let ?res = "\<lparr>headers = [], json = JArr [?match]\<rparr>"
  let ?opts = "withAuthToken ?params noOptions"
  have o: "?opts = noOptions"
    by (simp add: withAuthToken_def getProp_def)
  have h1: "getProp ?params ''postType'' = Arr (Str ''book'' # [Str ''post''])"
    by (simp add: getProp_def)
  have h2: "\<not> (truthy (getProp ?params ''revision'') \<and> truthy (getProp ?params ''id''))"
    by (simp add: getProp_def)
  have h3: "Str ''book'' # [Str ''post''] = [Str ''book''] @ Str ''post'' # []"
    by simp
  have h4: "candidatesEmpty testBackend postsStrategy ?params noOptions [Str ''book''] []"
    by (simp add: single_simps)
  have h5: "SinglePostFetchStrategy_buildEndpointURL testBackend (spread ?params [(''postType'', Str ''post'')])
              = Inr ''/wp-json/wp/v2/posts?slug=post-name''"
    by (simp add: single_simps)
  have calls: "map (candidateCall testBackend postsStrategy ?params noOptions) [Str ''book'']
                 = [(''/wp-json/wp/v2/book?slug=post-name'', [])]"
    "map (candidateCall testBackend postsStrategy ?params noOptions) ([Str ''book''] @ [Str ''post''])
                 = [(''/wp-json/wp/v2/book?slug=post-name'', []),
                    (''/wp-json/wp/v2/posts?slug=post-name'', [])]"
    by (simp_all add: single_simps)
  have h6: "fetch testBackend [(''/wp-json/wp/v2/book?slug=post-name'', [])]
         (addQueryArgs testBackend ''/wp-json/wp/v2/posts?slug=post-name'' []) [] = Inr ?res"
    by (simp add: single_simps)
  have h6': "fetch testBackend
         ([] @ map (candidateCall testBackend postsStrategy ?params ?opts) [Str ''book''])
         (addQueryArgs testBackend (baseURL postsStrategy @ ''/wp-json/wp/v2/posts?slug=post-name'') [])
         (authHeaders ?opts) = Inr ?res"
    unfolding o calls using h6 by (simp add: postsStrategy_def authHeaders_def noOptions_def)
  have h7: "json ?res \<noteq> JArr []"
    by simp
  have sel: "selected testBackend postsStrategy (toResponse ?params ?res)
               = Some \<lparr>result = JObj ?match, pageInfo = singlePage, queriedObject = None\<rparr>"
    by (simp add: selected_def toResponse_def selectItem_def linkMatches_def endsWith_def
        getProp_def testBackend_def emptyBackend_def postsStrategy_def)
  from multi_postType_fallback [OF h1 h2, of testBackend postsStrategy noOptions "[]"]
    h3 h4 h5 h6' h7
  have "\<exists>r. selected testBackend postsStrategy (toResponse ?params ?res) = Some r
          \<and> SinglePostFetchStrategy_fetchHookData testBackend postsStrategy ?params noOptions []
              = (Inr r, [] @ map (candidateCall testBackend postsStrategy ?params ?opts)
                                ([Str ''book''] @ [Str ''post'']))"
    unfolding o by blast
  then have "SinglePostFetchStrategy_fetchHookData testBackend postsStrategy ?params noOptions []
       = (Inr \<lparr>result = JObj ?match, pageInfo = singlePage, queriedObject = None\<rparr>,
          [(''/wp-json/wp/v2/book?slug=post-name'', []),
           (''/wp-json/wp/v2/posts?slug=post-name'', [])])"
    unfolding o calls sel by simp
  with h1 h4 h6 show ?thesis by blast
qed

subsection \<open>Single post: the cases of the test suite\<close>

text \<open>The single-post definitions give what \<^verbatim>\<open>__tests__/SinglePostFetchStrategy.ts\<close>
  expects: the endpoint URLs, the configuration error for an unregistered fallback
  candidate, the call for a draft, and the choice between two child pages with the
  same slug.\<close>

lemma single_post_buildEndpointURL_tests:
  "SinglePostFetchStrategy_buildEndpointURL testBackend [(''slug'', Str ''post-name'')]
     = Inr ''/wp-json/wp/v2/posts?slug=post-name''"
  "SinglePostFetchStrategy_buildEndpointURL testBackend
     [(''slug'', Str ''book-name''), (''postType'', Str ''book'')]
     = Inr ''/wp-json/wp/v2/book?slug=book-name''"
  "SinglePostFetchStrategy_buildEndpointURL testBackend
     [(''slug'', Str ''book-name''), (''postType'', Arr [Str ''page'', Str ''book''])]
     = Inr ''/wp-json/wp/v2/pages?slug=book-name''"
  "SinglePostFetchStrategy_buildEndpointURL testBackend
     [(''postType'', Str ''book''), (''id'', Num 10)]
     = Inr ''/wp-json/wp/v2/book/10''"
  "SinglePostFetchStrategy_buildEndpointURL testBackend
     [(''postType'', Str ''book''), (''id'', Num 10), (''revision'', Bool True)]
     = Inr ''/wp-json/wp/v2/book/10''"
  "SinglePostFetchStrategy_buildEndpointURL testBackend
     [(''postType'', Arr [Str ''book'', Str ''page'']), (''id'', Num 10), (''revision'', Bool True)]
     = Inr ''/wp-json/wp/v2/book/10''"
  "SinglePostFetchStrategy_buildEndpointURL testBackend [(''postType'', Str ''custom-post-type'')]
     = Inl (ConfigError ''Unkown post type, did you forget to add it to headless.config.js?'')"
  by (simp_all add: single_simps unknownPostType_def)

lemmas fetch_simps =
  SinglePostFetchStrategy_fetchHookData_def SinglePostFetchStrategy_fetcher_def
  attempt_def attemptCandidate_def AbstractFetchStrategy_fetcher_def apiGet_def await_def
  resolve_def reject_def toResponse_def selected_def selectItem_def linkMatches_def
  endsWith_def singlePage_def Let_def

lemma single_post_bad_arguments_test:
  "SinglePostFetchStrategy_fetchHookData testBackend postsStrategy
     [(''slug'', Str ''post-name''), (''postType'', Arr [Str ''book'', Str ''unkown-post-type''])]
     noOptions []
   = (Inl (ConfigError ''Unkown post type, did you forget to add it to headless.config.js?''),
      [(''/wp-json/wp/v2/book?slug=post-name'', [])])"
  by (simp add: single_simps fetch_simps unknownPostType_def)

lemma single_post_draft_test:
  "snd (SinglePostFetchStrategy_fetchHookData testBackend postsStrategy
     [(''slug'', Str ''post-name''), (''id'', Num 10), (''authToken'', Str ''test token'')]
     noOptions [])
   = [(''/wp-json/wp/v2/posts/10'', [(''Authorization'', ''Bearer test token'')])]"
  by (simp add: single_simps fetch_simps)

lemma single_post_child_pages_test:
  "fst (SinglePostFetchStrategy_fetchHookData childPagesBackend
          (sourceUrlStrategy ''/parent-page-2/about'') [(''slug'', Str ''about'')] noOptions [])
   = Inr \<lparr>result = JObj childPost2, pageInfo = singlePage, queriedObject = None\<rparr>"
  "fst (SinglePostFetchStrategy_fetchHookData childPagesBackend
          (sourceUrlStrategy ''/parent-page/about'') [(''slug'', Str ''about'')] noOptions [])
   = Inr \<lparr>result = JObj childPost1, pageInfo = singlePage, queriedObject = None\<rparr>"
  by (simp_all add: single_simps fetch_simps childPagesBackend_def sourceUrlStrategy_def
      childPost1_def childPost2_def)

end
